theory Spec2Isabelle
  imports Main
begin

section \<open>Values shared by the routes\<close>

text \<open>
  JSON values as the route handlers build and read them. \<open>JUndefined\<close> is JavaScript's
  \<open>undefined\<close>; inside an array it also stands for a hole left by \<open>delete\<close>. An object
  is an association list in key order (keys are distinct in a JavaScript object). Numbers
  are the integers the handlers produce (HTTP statuses, counts).
\<close>

datatype json =
  JUndefined
| JNull
| JBool bool
| JNum int
| JStr string
| JArr "json list"
| JObj "(string \<times> json) list"

text \<open>A thrown JavaScript \<open>Error\<close>, with its message.\<close>

datatype exn = Error string

fun message :: "exn \<Rightarrow> string" where
  "message (Error m) = m"

text \<open>What \<open>NextResponse.json(body, { status })\<close> hands back to the caller.\<close>

record route_response =
  status :: nat
  body :: json

text \<open>
  JavaScript truthiness of an optional string: \<open>undefined\<close>, \<open>null\<close> and the empty string
  are falsy. \<open>truthy v\<close> is the string when \<open>v\<close> is truthy.
\<close>

fun truthy :: "string option \<Rightarrow> string option" where
  "truthy None = None"
| "truthy (Some s) = (if s = [] then None else Some s)"

section \<open>The credential table\<close>

text \<open>
  One row of \<open>prisma.edmAuth\<close>. Timestamps are milliseconds since the epoch, as
  \<open>Date.now()\<close> counts them.
\<close>

record EdmAuth =
  rec_id :: string
  encryptedAccessToken :: "string option"
  accessTokenExpiresAt :: "int option"
  encryptedRefreshToken :: string
  refreshTokenHash :: string
  lastRefreshedAt :: "int option"
  nextRefreshAt :: int
  refreshFailureCount :: int
  revoked :: bool


text \<open>
  The local user table and the doctor/department configuration table, as far as the
  order-visit route reads and writes them. \<open>externalPatientId\<close> holds whatever the
  upstream API returned as \<open>id\<close> (\<open>JNull\<close> or \<open>JUndefined\<close> when there is none).
\<close>

record User =
  user_id :: string
  externalPatientId :: json

record EdmDoctorDepartment =
  createdAt :: int
  doctorExternalId :: "string option"
  departmentExternalId :: "string option"

section \<open>The environment of a run\<close>

text \<open>An outbound HTTP request, and what \<open>fetch\<close> gives back.\<close>

datatype req_body = NoBody | Form "(string \<times> string) list" | JsonBody json

record request =
  url :: string
  http_method :: string
  req_headers :: "(string \<times> string) list"
  payload :: req_body

datatype fetch_outcome =
  NetworkError string
| Response nat string

text \<open>The success body of the token endpoint: \<open>{ access_token, refresh_token?, expires_in? }\<close>.\<close>

record token_response =
  access_token :: "string option"
  refresh_token :: "string option"
  expires_in :: "int option"

text \<open>
  Everything the handlers take from outside the repository's route files:
  \<^item> the process environment variables;
  \<^item> the token cipher of \<open>@/lib/edm-crypto\<close>, which is not among the source files. It is a
    parameter here, typed as the specification describes it (section 4.1): \<open>decryptToken\<close>
    fails on tampered or malformed input, \<open>encryptToken\<close> uses a fresh nonce on each call
    and fails when the key is missing, \<open>hashToken\<close> is deterministic and total;
  \<^item> the network: \<open>fetch e n rq\<close> is what a network call receives for request \<open>rq\<close> when
    \<open>n\<close> calls were made before it, together with the milliseconds it took;
  \<^item> JavaScript built-ins: reading a token response (\<open>r.json()\<close>, which throws on a body
    that is not JSON), \<open>JSON.parse\<close>, \<open>String\<close>, \<open>Date.prototype.toISOString\<close>, and the
    message of the error that the \<open>Response\<close> constructor throws for a status it refuses.
\<close>

record env =
  ADMIN_REFRESH_KEY :: "string option"
  VERCEL :: "string option"
  EDM_CLIENT_ID :: "string option"
  EDM_CLIENT_SECRET :: "string option"
  EDM_URL :: "string option"
  decryptToken :: "string \<Rightarrow> exn + string"
  encryptToken :: "nat \<Rightarrow> string \<Rightarrow> exn + string"
  hashToken :: "string \<Rightarrow> string"
  fetch :: "nat \<Rightarrow> request \<Rightarrow> nat \<times> fetch_outcome"
  token_json :: "string \<Rightarrow> exn + token_response"
  JSON_parse :: "string \<Rightarrow> json option"
  js_String :: "json \<Rightarrow> string"
  toISOString :: "int \<Rightarrow> string"
  status_error :: "nat \<Rightarrow> string"

text \<open>
  The mutable world: the three tables, the clock (\<open>Date.now()\<close>), the network calls made
  so far, each with its outcome, and counters of the store writes made and the cipher
  nonces used.
\<close>

record world =
  edmAuth :: "EdmAuth list"
  user :: "User list"
  edmDoctorDepartment :: "EdmDoctorDepartment list"
  now :: int
  trace :: "(request \<times> fetch_outcome) list"
  writes :: nat
  nonce :: nat

text \<open>The number of network calls made so far.\<close>

definition calls :: "world \<Rightarrow> nat" where
  "calls w = length (trace w)"

text \<open>The network calls made between an earlier world and a later one.\<close>

definition new_calls :: "world \<Rightarrow> world \<Rightarrow> (request \<times> fetch_outcome) list" where
  "new_calls w w' = drop (length (trace w)) (trace w')"

text \<open>\<open>process.env.X ?? d\<close>\<close>

fun or_default :: "string option \<Rightarrow> string \<Rightarrow> string" where
  "or_default None d = d"
| "or_default (Some v) d = v"

text \<open>\<open>await fetch(...)\<close>: one more network call; the clock moves by the time it took.\<close>

definition do_fetch :: "env \<Rightarrow> request \<Rightarrow> world \<Rightarrow> fetch_outcome \<times> world" where
  "do_fetch e rq w =
     (case fetch e (calls w) rq of
        (dt, out) \<Rightarrow> (out, w\<lparr>now := now w + int dt, trace := trace w @ [(rq, out)]\<rparr>))"

text \<open>\<open>response.ok\<close>: a status in the range 200 to 299.\<close>

definition ok :: "nat \<Rightarrow> bool" where
  "ok st = (200 \<le> st \<and> st \<le> 299)"

text \<open>\<open>encryptToken(t)\<close>: consumes one nonce.\<close>

definition encrypt :: "env \<Rightarrow> string \<Rightarrow> world \<Rightarrow> (exn + string) \<times> world" where
  "encrypt e t w = (encryptToken e (nonce w) t, w\<lparr>nonce := Suc (nonce w)\<rparr>)"

section \<open>Store operations\<close>

text \<open>
  \<open>prisma.edmAuth.update({ where: { id }, data })\<close>: the row with that id is rewritten
  (ids are unique, and rows are never deleted, so the row read earlier is still there).
\<close>

definition update_edmAuth :: "string \<Rightarrow> (EdmAuth \<Rightarrow> EdmAuth) \<Rightarrow> world \<Rightarrow> world" where
  "update_edmAuth i f w =
     w\<lparr>edmAuth := map (\<lambda>r. if rec_id r = i then f r else r) (edmAuth w),
       writes := Suc (writes w)\<rparr>"

definition find_row :: "string \<Rightarrow> world \<Rightarrow> EdmAuth option" where
  "find_row i w = find (\<lambda>r. rec_id r = i) (edmAuth w)"

text \<open>
  The failure update both refresh paths issue:
  \<open>data: { refreshFailureCount: { increment: 1 }, nextRefreshAt: new Date(Date.now() + 60 * 60 * 1000) }\<close>.
\<close>

definition failure_data :: "int \<Rightarrow> EdmAuth \<Rightarrow> EdmAuth" where
  "failure_data t r =
     r\<lparr>refreshFailureCount := refreshFailureCount r + 1,
       nextRefreshAt := t + 60 * 60 * 1000\<rparr>"

definition applyFailure :: "string \<Rightarrow> world \<Rightarrow> world" where
  "applyFailure i w = update_edmAuth i (failure_data (now w)) w"

text \<open>
  The success update both refresh paths issue. A field given as \<open>undefined\<close> is left as it
  is by Prisma: that is the case of \<open>encryptedAccessToken\<close> when \<open>encAccess\<close> is undefined, and
  of \<open>accessTokenExpiresAt\<close> when \<open>expiresAt\<close> is null (\<open>expiresAt ?? undefined\<close>).
\<close>

definition success_data ::
  "string option \<Rightarrow> int option \<Rightarrow> string \<Rightarrow> string \<Rightarrow> int \<Rightarrow> EdmAuth \<Rightarrow> EdmAuth" where
  "success_data encAccess expiresAt encRefresh refreshHash t r =
     r\<lparr>encryptedAccessToken :=
         (case encAccess of None \<Rightarrow> encryptedAccessToken r | Some c \<Rightarrow> Some c),
       accessTokenExpiresAt :=
         (case expiresAt of None \<Rightarrow> accessTokenExpiresAt r | Some x \<Rightarrow> Some x),
       encryptedRefreshToken := encRefresh,
       refreshTokenHash := refreshHash,
       lastRefreshedAt := Some t,
       nextRefreshAt := t + 8 * 60 * 60 * 1000,
       refreshFailureCount := 0\<rparr>"

section \<open>The refresh-token grant\<close>

text \<open>The request both refresh paths send to the token endpoint.\<close>

definition token_request :: "env \<Rightarrow> string \<Rightarrow> request" where
  "token_request e rawRefresh =
     \<lparr>url = or_default (EDM_URL e) ''https://api.edm.mydr.pl/secure/ext_api'' @ ''/o/token/'',
      http_method = ''POST'',
      req_headers = [(''Content-Type'', ''application/x-www-form-urlencoded'')],
      payload = Form [(''grant_type'', ''refresh_token''),
                      (''refresh_token'', rawRefresh),
                      (''client_id'', or_default (EDM_CLIENT_ID e) []),
                      (''client_secret'', or_default (EDM_CLIENT_SECRET e) [])]\<rparr>"

text \<open>\<open>expires_in ? new Date(Date.now() + expires_in * 1000) : null\<close> (0 is falsy).\<close>

fun expiresAt_of :: "int option \<Rightarrow> int \<Rightarrow> int option" where
  "expiresAt_of None t = None"
| "expiresAt_of (Some n) t = (if n = 0 then None else Some (t + n * 1000))"

text \<open>
  \<open>let encRefresh = rec.encryptedRefreshToken; let refreshHash = rec.refreshTokenHash;
  if (refresh_token) { encRefresh = encryptToken(refresh_token); refreshHash = hashToken(refresh_token); }\<close>
\<close>

definition rotate ::
  "env \<Rightarrow> EdmAuth \<Rightarrow> string option \<Rightarrow> world \<Rightarrow> (exn + string \<times> string) \<times> world" where
  "rotate e r rt w =
     (case truthy rt of
        None \<Rightarrow> (Inr (encryptedRefreshToken r, refreshTokenHash r), w)
      | Some t \<Rightarrow>
          (case encrypt e t w of
             (Inl err, w1) \<Rightarrow> (Inl err, w1)
           | (Inr c, w1) \<Rightarrow> (Inr (c, hashToken e t), w1)))"


subsection \<open>On the request path: \<open>refreshAccessTokenIfNeeded\<close>\<close>

text \<open>
  The departments route and the order-visit route each carry a copy of this function; the
  copies differ only in the message of the error thrown on a non-success status
  (\<open>EDM token refresh failed: \<close> and \<open>EDM refresh failed: \<close>), which is the first argument
  here. The result is the thrown error or the returned access token, and the world after
  the call.
\<close>

text \<open>The function from \<open>const rawRefresh = decryptToken(rec.encryptedRefreshToken)\<close> on.\<close>

definition refresh_grant ::
  "string \<Rightarrow> env \<Rightarrow> EdmAuth \<Rightarrow> world \<Rightarrow> (exn + string) \<times> world" where
  "refresh_grant prefix e r w =
     (case decryptToken e (encryptedRefreshToken r) of
        Inl err \<Rightarrow> (Inl err, w)
      | Inr rawRefresh \<Rightarrow>
          (case do_fetch e (token_request e rawRefresh) w of
             (NetworkError m, w1) \<Rightarrow> (Inl (Error m), w1)
           | (Response st txt, w1) \<Rightarrow>
               if \<not> ok st then (Inl (Error (prefix @ txt)), applyFailure (rec_id r) w1)
               else
                 (case token_json e txt of
                    Inl err \<Rightarrow> (Inl err, w1)
                  | Inr d \<Rightarrow>
                      (case truthy (access_token d) of
                         None \<Rightarrow> (Inl (Error ''No access_token in refresh response''), w1)
                       | Some a \<Rightarrow>
                           (case encrypt e a w1 of
                              (Inl err, w2) \<Rightarrow> (Inl err, w2)
                            | (Inr encAccess, w2) \<Rightarrow>
                                (case rotate e r (refresh_token d) w2 of
                                   (Inl err, w3) \<Rightarrow> (Inl err, w3)
                                 | (Inr (encRefresh, refreshHash), w3) \<Rightarrow>
                                     (Inr a,
                                      update_edmAuth (rec_id r)
                                        (success_data (Some encAccess)
                                           (expiresAt_of (expires_in d) (now w3))
                                           encRefresh refreshHash (now w3))
                                        w3)))))))"

text \<open>
  The test of the first \<open>if\<close>,
  \<open>rec.encryptedAccessToken && rec.accessTokenExpiresAt &&
  new Date(rec.accessTokenExpiresAt) > new Date(Date.now() + 60 * 1000)\<close>:
  when it holds, the result is the stored ciphertext that the branch decrypts.
\<close>

definition valid_access_token :: "EdmAuth \<Rightarrow> world \<Rightarrow> string option" where
  "valid_access_token r w =
     (case truthy (encryptedAccessToken r) of
        None \<Rightarrow> None
      | Some c \<Rightarrow>
          (case accessTokenExpiresAt r of
             None \<Rightarrow> None
           | Some x \<Rightarrow> if x > now w + 60 * 1000 then Some c else None))"

definition refreshAccessTokenIfNeeded ::
  "string \<Rightarrow> env \<Rightarrow> EdmAuth \<Rightarrow> world \<Rightarrow> (exn + string) \<times> world" where
  "refreshAccessTokenIfNeeded prefix e r w =
     (case valid_access_token r w of
        Some c \<Rightarrow> (decryptToken e c, w)
      | None \<Rightarrow> refresh_grant prefix e r w)"

subsection \<open>In the sweep: \<open>refreshRecord\<close>\<close>

text \<open>What \<open>refreshRecord\<close> returns: \<open>{ id, ok: true, nextRefreshAt }\<close> or \<open>{ id, ok: false, details }\<close>.\<close>

datatype refresh_result =
  RefreshOk string int
| RefreshFailed string string

text \<open>The \<open>id\<close> field of an outcome.\<close>

fun outcome_id :: "refresh_result \<Rightarrow> string" where
  "outcome_id (RefreshOk i t) = i"
| "outcome_id (RefreshFailed i d) = i"

text \<open>The body of the \<open>try\<close> block: the value returned or the error thrown inside it.\<close>

definition refreshRecord_try ::
  "env \<Rightarrow> EdmAuth \<Rightarrow> world \<Rightarrow> (exn + refresh_result) \<times> world" where
  "refreshRecord_try e r w =
     (case decryptToken e (encryptedRefreshToken r) of
        Inl err \<Rightarrow> (Inl err, w)
      | Inr rawRefresh \<Rightarrow>
          (case do_fetch e (token_request e rawRefresh) w of
             (NetworkError m, w1) \<Rightarrow> (Inl (Error m), w1)
           | (Response st txt, w1) \<Rightarrow>
               if \<not> ok st then (Inr (RefreshFailed (rec_id r) txt), applyFailure (rec_id r) w1)
               else
                 (case token_json e txt of
                    Inl err \<Rightarrow> (Inl err, w1)
                  | Inr d \<Rightarrow>
                      (case (case truthy (access_token d) of
                               None \<Rightarrow> (Inr None, w1)
                             | Some a \<Rightarrow>
                                 (case encrypt e a w1 of
                                    (Inl err, w2) \<Rightarrow> (Inl err, w2)
                                  | (Inr c, w2) \<Rightarrow> (Inr (Some c), w2))) of
                         (Inl err, w2) \<Rightarrow> (Inl err, w2)
                       | (Inr encAccess, w2) \<Rightarrow>
                           (case rotate e r (refresh_token d) w2 of
                              (Inl err, w3) \<Rightarrow> (Inl err, w3)
                            | (Inr (encRefresh, refreshHash), w3) \<Rightarrow>
                                (Inr (RefreshOk (rec_id r) (now w3 + 8 * 60 * 60 * 1000)),
                                 update_edmAuth (rec_id r)
                                   (success_data encAccess
                                      (expiresAt_of (expires_in d) (now w3))
                                      encRefresh refreshHash (now w3))
                                   w3))))))"

text \<open>
  The \<open>catch\<close> block: on any error thrown in the \<open>try\<close> block the failure update is issued
  and a failure outcome with the error's message is returned.
\<close>

definition refreshRecord :: "env \<Rightarrow> EdmAuth \<Rightarrow> world \<Rightarrow> refresh_result \<times> world" where
  "refreshRecord e r w =
     (case refreshRecord_try e r w of
        (Inr res, w1) \<Rightarrow> (res, w1)
      | (Inl err, w1) \<Rightarrow> (RefreshFailed (rec_id r) (message err), applyFailure (rec_id r) w1))"


text \<open>
  The invariant of the credential table that a refresh is meant to restore for its row:
  the row is there and is scheduled one hour or eight hours after the clock reading.
\<close>

definition rescheduled :: "string \<Rightarrow> world \<Rightarrow> bool" where
  "rescheduled i w =
     (case find_row i w of
        None \<Rightarrow> False
      | Some s \<Rightarrow>
          nextRefreshAt s = now w + 60 * 60 * 1000 \<or>
          nextRefreshAt s = now w + 8 * 60 * 60 * 1000)"

section \<open>The sweep route: \<open>POST /api/edm/refresh-all\<close>\<close>

text \<open>
  The headers of an incoming request, keyed by lower-case name; \<open>req.headers.get\<close> gives
  \<open>null\<close> (here \<open>None\<close>) for a header that is not there.
\<close>

type_synonym headers = "string \<Rightarrow> string option"

definition checkAuth :: "env \<Rightarrow> headers \<Rightarrow> bool" where
  "checkAuth e hdrs =
     (let auth = or_default (hdrs ''authorization'') [];
          key = or_default (ADMIN_REFRESH_KEY e) []
      in if auth = ''Bearer '' @ key then True
         else if hdrs ''x-admin-key'' = Some key then True
         else if VERCEL e = Some ''1'' \<and> hdrs ''x-vercel-cron'' \<noteq> None then True
         else False)"

definition batchSize :: nat where
  "batchSize = 100"

text \<open>
  \<open>prisma.edmAuth.findMany({ where: { revoked: false }, take: batchSize })\<close>: the first
  \<open>n\<close> non-revoked rows. The call names no order; the table order stands for whatever
  order the store uses.
\<close>

definition findMany :: "nat \<Rightarrow> world \<Rightarrow> EdmAuth list" where
  "findMany n w = take n (filter (\<lambda>r. \<not> revoked r) (edmAuth w))"

text \<open>The \<open>for\<close> loop over one page: each outcome is pushed onto \<open>results\<close>.\<close>

fun refresh_page ::
  "env \<Rightarrow> EdmAuth list \<Rightarrow> world \<Rightarrow> refresh_result list \<Rightarrow> refresh_result list \<times> world" where
  "refresh_page e [] w results = (results, w)"
| "refresh_page e (r # rs) w results =
     (case refreshRecord e r w of
        (res, w1) \<Rightarrow> refresh_page e rs w1 (results @ [res]))"

text \<open>
  The \<open>while (true)\<close> loop. It may run forever, so it is a partial function: \<open>None\<close> is
  a run that never leaves the loop.
\<close>

partial_function (option) sweep ::
  "env \<Rightarrow> world \<Rightarrow> refresh_result list \<Rightarrow> (refresh_result list \<times> world) option" where
  "sweep e w results =
     (let toRefresh = findMany batchSize w in
      if toRefresh = [] then Some (results, w)
      else
        (case refresh_page e toRefresh w results of
           (results1, w1) \<Rightarrow>
             if length toRefresh < batchSize then Some (results1, w1)
             else sweep e w1 results1))"

definition result_json :: "env \<Rightarrow> refresh_result \<Rightarrow> json" where
  "result_json e res =
     (case res of
        RefreshOk i t \<Rightarrow>
          JObj [(''id'', JStr i), (''ok'', JBool True), (''nextRefreshAt'', JStr (toISOString e t))]
      | RefreshFailed i d \<Rightarrow>
          JObj [(''id'', JStr i), (''ok'', JBool False), (''details'', JStr d)])"

text \<open>
  The handler. Nothing inside its \<open>try\<close> block throws in this model (every error of a
  refresh is caught in \<open>refreshRecord\<close>), so the \<open>catch\<close> block with status 500 is not
  reached.
\<close>

definition refresh_all_POST ::
  "env \<Rightarrow> headers \<Rightarrow> world \<Rightarrow> (route_response \<times> world) option" where
  "refresh_all_POST e hdrs w =
     (if \<not> checkAuth e hdrs
      then Some (\<lparr>status = 401, body = JObj [(''error'', JStr ''unauthorized'')]\<rparr>, w)
      else
        (case sweep e w [] of
           None \<Rightarrow> None
         | Some (results, w1) \<Rightarrow>
             Some (\<lparr>status = 200,
                    body = JObj [(''processed'', JNum (int (length results))),
                                 (''results'', JArr (map (result_json e) results))]\<rparr>,
                   w1)))"


section \<open>The patient payload of the order-visit route\<close>

subsection \<open>\<open>parsePesel\<close>\<close>

definition is_digit :: "char \<Rightarrow> bool" where
  "is_digit c = (48 \<le> (of_char c :: nat) \<and> (of_char c :: nat) \<le> 57)"

definition digit_val :: "char \<Rightarrow> nat" where
  "digit_val c = (of_char c :: nat) - 48"

text \<open>\<open>parseInt(s, 10)\<close> on a string of decimal digits.\<close>

definition parseInt :: "string \<Rightarrow> nat" where
  "parseInt ds = foldl (\<lambda>n c. 10 * n + digit_val c) 0 ds"

text \<open>\<open>String(n)\<close> for a natural number.\<close>

fun String_nat :: "nat \<Rightarrow> string" where
  "String_nat n =
     (if n < 10 then [char_of (48 + n)]
      else String_nat (n div 10) @ [char_of (48 + n mod 10)])"

declare String_nat.simps [simp del]

text \<open>\<open>s.padStart(2, "0")\<close>\<close>

definition padStart2 :: "string \<Rightarrow> string" where
  "padStart2 s = replicate (2 - length s) (CHR ''0'') @ s"

text \<open>\<open>pesel.slice(i, j)\<close> for \<open>0 \<le> i \<le> j\<close>.\<close>

definition slice :: "nat \<Rightarrow> nat \<Rightarrow> string \<Rightarrow> string" where
  "slice i j s = take (j - i) (drop i s)"

text \<open>
  The two sex labels, as UTF-8 bytes: \<open>M\<close>, e with ogonek, z with dot above, \<open>czyzna\<close>;
  and \<open>Kobieta\<close>.
\<close>

definition Mezczyzna :: string where
  "Mezczyzna = ''M'' @ [CHR 0xC4, CHR 0x99, CHR 0xC5, CHR 0xBC] @ ''czyzna''"

text \<open>
  The result is \<open>None\<close> for the empty object \<open>{}\<close> and \<open>Some (dateOfBirth, sex)\<close>
  otherwise. The test \<open>/^\d{11}$/\<close> asks for exactly eleven ASCII digits.
\<close>

definition parsePesel :: "string \<Rightarrow> (string \<times> string) option" where
  "parsePesel pesel =
     (if \<not> (length pesel = 11 \<and> list_all is_digit pesel) then None
      else
        let year = parseInt (slice 0 2 pesel);
            month = parseInt (slice 2 4 pesel);
            day = parseInt (slice 4 6 pesel);
            ym =
              (if 1 \<le> month \<and> month \<le> 12 then Some (1900 + year, month)
               else if 21 \<le> month \<and> month \<le> 32 then Some (2000 + year, month - 20)
               else if 41 \<le> month \<and> month \<le> 52 then Some (2100 + year, month - 40)
               else if 61 \<le> month \<and> month \<le> 72 then Some (2200 + year, month - 60)
               else if 81 \<le> month \<and> month \<le> 92 then Some (1800 + year, month - 80)
               else None)
        in case ym of
             None \<Rightarrow> None
           | Some (fullYear, m) \<Rightarrow>
               let mm = padStart2 (String_nat m);
                   dd = padStart2 (String_nat day);
                   dateOfBirth = String_nat fullYear @ ''-'' @ mm @ ''-'' @ dd;
                   sexDigit = parseInt (slice 9 10 pesel);
                   sex = (if sexDigit mod 2 = 1 then Mezczyzna else ''Kobieta'')
               in Some (dateOfBirth, sex))"

subsection \<open>\<open>removeEmpty\<close>\<close>

text \<open>\<open>val === "" || val === null || val === undefined\<close>\<close>

fun is_empty_val :: "json \<Rightarrow> bool" where
  "is_empty_val (JStr s) = (s = [])"
| "is_empty_val JNull = True"
| "is_empty_val JUndefined = True"
| "is_empty_val _ = False"

text \<open>\<open>typeof val === "object"\<close>, for a value that is not \<open>null\<close>.\<close>

fun is_object :: "json \<Rightarrow> bool" where
  "is_object (JObj kvs) = True"
| "is_object (JArr xs) = True"
| "is_object _ = False"

text \<open>\<open>Object.keys(val).length\<close>: the members of an object, the elements of an array that are not holes.\<close>

fun keys_length :: "json \<Rightarrow> nat" where
  "keys_length (JObj kvs) = length kvs"
| "keys_length (JArr xs) = length (filter (\<lambda>x. x \<noteq> JUndefined) xs)"
| "keys_length _ = 0"

text \<open>
  \<open>removeEmpty\<close> mutates its argument in place and returns it; here it returns the
  pruned value. \<open>removeEmpty_members\<close> is the \<open>for\<close> loop over the keys of an object and
  \<open>removeEmpty_elems\<close> the same loop over the indices of an array, where \<open>delete\<close> leaves
  a hole.
\<close>

fun removeEmpty :: "json \<Rightarrow> json"
  and removeEmpty_members :: "(string \<times> json) list \<Rightarrow> (string \<times> json) list"
  and removeEmpty_elems :: "json list \<Rightarrow> json list" where
  "removeEmpty (JObj kvs) = JObj (removeEmpty_members kvs)"
| "removeEmpty (JArr xs) = JArr (removeEmpty_elems xs)"
| "removeEmpty JUndefined = JUndefined"
| "removeEmpty JNull = JNull"
| "removeEmpty (JBool b) = JBool b"
| "removeEmpty (JNum n) = JNum n"
| "removeEmpty (JStr s) = JStr s"
| "removeEmpty_members [] = []"
| "removeEmpty_members ((k, v) # kvs) =
     (if is_empty_val v then removeEmpty_members kvs
      else if is_object v then
        (if keys_length (removeEmpty v) = 0 then removeEmpty_members kvs
         else (k, removeEmpty v) # removeEmpty_members kvs)
      else (k, v) # removeEmpty_members kvs)"
| "removeEmpty_elems [] = []"
| "removeEmpty_elems (x # xs) =
     (if is_empty_val x then JUndefined # removeEmpty_elems xs
      else if is_object x then
        (if keys_length (removeEmpty x) = 0 then JUndefined # removeEmpty_elems xs
         else removeEmpty x # removeEmpty_elems xs)
      else x # removeEmpty_elems xs)"

text \<open>
  The shape the pruning is for: no member at any depth is bound to the empty string,
  \<open>null\<close> or \<open>undefined\<close>, and no nested object is empty. In an array the holes that
  \<open>delete\<close> leaves are not members; every other element obeys the same rule.
\<close>

fun pruned :: "json \<Rightarrow> bool"
  and pruned_members :: "(string \<times> json) list \<Rightarrow> bool"
  and pruned_elems :: "json list \<Rightarrow> bool" where
  "pruned (JObj kvs) = pruned_members kvs"
| "pruned (JArr xs) = pruned_elems xs"
| "pruned JUndefined = True"
| "pruned JNull = True"
| "pruned (JBool b) = True"
| "pruned (JNum n) = True"
| "pruned (JStr s) = True"
| "pruned_members [] = True"
| "pruned_members ((k, v) # kvs) =
     (\<not> is_empty_val v \<and>
      (if is_object v then 0 < keys_length v \<and> pruned v else True) \<and>
      pruned_members kvs)"
| "pruned_elems [] = True"
| "pruned_elems (x # xs) =
     (if x = JUndefined then pruned_elems xs
      else \<not> is_empty_val x \<and>
           (if is_object x then 0 < keys_length x \<and> pruned x else True) \<and>
           pruned_elems xs)"

subsection \<open>\<open>buildPatientPayload\<close>\<close>

text \<open>\<open>obj[key]\<close> and \<open>obj[key] = v\<close> on the members of an object.\<close>

fun get_prop :: "string \<Rightarrow> (string \<times> json) list \<Rightarrow> json" where
  "get_prop k [] = JUndefined"
| "get_prop k ((k', v) # kvs) = (if k' = k then v else get_prop k kvs)"

fun set_prop :: "string \<Rightarrow> json \<Rightarrow> (string \<times> json) list \<Rightarrow> (string \<times> json) list" where
  "set_prop k v [] = [(k, v)]"
| "set_prop k v ((k', v') # kvs) = (if k' = k then (k, v) # kvs else (k', v') # set_prop k v kvs)"

text \<open>JavaScript truthiness of a value.\<close>

fun json_truthy :: "json \<Rightarrow> bool" where
  "json_truthy JUndefined = False"
| "json_truthy JNull = False"
| "json_truthy (JBool b) = b"
| "json_truthy (JNum n) = (n \<noteq> 0)"
| "json_truthy (JStr s) = (s \<noteq> [])"
| "json_truthy (JArr xs) = True"
| "json_truthy (JObj kvs) = True"

definition empty_address :: json where
  "empty_address =
     JObj [(''country'', JStr ''PL''), (''street'', JStr []), (''street_number'', JStr []),
           (''flat_number'', JStr []), (''postal_code'', JStr []), (''city'', JStr []),
           (''province'', JStr [])]"

text \<open>
  The arguments are the fields of the function's \<open>input\<close> object, with the types its
  signature declares: \<open>name\<close> and \<open>surname\<close> are strings, the other four may be missing.
\<close>

definition buildPatientPayload ::
  "string \<Rightarrow> string \<Rightarrow> string option \<Rightarrow> string option \<Rightarrow> string option \<Rightarrow> string option \<Rightarrow> json" where
  "buildPatientPayload name surname email pesel date_of_birth telephone =
     (let p0 = [(''name'', JStr name),
                (''surname'', JStr surname),
                (''telephone'', (case telephone of None \<Rightarrow> JNull | Some t \<Rightarrow> JStr t)),
                (''second_telephone'', JNull),
                (''country'', JStr ''PL''),
                (''nfz'', JNull),
                (''rights'', JNull),
                (''residence_address'', empty_address),
                (''registration_address'', empty_address),
                (''blood_type'', JStr ''N''),
                (''active'', JBool True)];
          p1 = (case truthy email of None \<Rightarrow> p0 | Some m \<Rightarrow> set_prop ''email'' (JStr m) p0);
          p2 = (case truthy pesel of
                  None \<Rightarrow> p1
                | Some ps \<Rightarrow>
                    (let q0 = set_prop ''pesel'' (JStr ps) p1
                     in case parsePesel ps of
                          None \<Rightarrow> q0
                        | Some (dateOfBirth, sex) \<Rightarrow>
                            (let q1 = (if dateOfBirth \<noteq> [] \<and> truthy date_of_birth = None
                                       then set_prop ''date_of_birth'' (JStr dateOfBirth) q0
                                       else q0)
                             in if sex \<noteq> [] then set_prop ''sex'' (JStr sex) q1 else q1)));
          p3 = (case truthy date_of_birth of
                  None \<Rightarrow> p2
                | Some d \<Rightarrow> set_prop ''date_of_birth'' (JStr d) p2);
          p4 = (if \<not> json_truthy (get_prop ''sex'' p3)
                then set_prop ''sex'' (JStr ''Nieznana'') p3 else p3)
      in removeEmpty (JObj p4))"


section \<open>The routes that need an access token\<close>

text \<open>
  \<open>prisma.edmAuth.findFirst({ where: { revoked: false }, orderBy: { lastRefreshedAt: "desc" } })\<close>:
  the non-revoked row refreshed last; a row never refreshed sorts below every refreshed
  one, and among equals the earlier row of the table is taken.
\<close>

fun refreshed_before :: "int option \<Rightarrow> int option \<Rightarrow> bool" where
  "refreshed_before None None = False"
| "refreshed_before None (Some b) = True"
| "refreshed_before (Some a) None = False"
| "refreshed_before (Some a) (Some b) = (a < b)"

definition findFirst_edmAuth :: "world \<Rightarrow> EdmAuth option" where
  "findFirst_edmAuth w =
     (case filter (\<lambda>r. \<not> revoked r) (edmAuth w) of
        [] \<Rightarrow> None
      | r # rs \<Rightarrow>
          Some (foldl (\<lambda>best x.
                  if refreshed_before (lastRefreshedAt best) (lastRefreshedAt x) then x else best)
                r rs))"

text \<open>\<open>JSON.parse(text)\<close> with the fallback \<open>{ raw: text }\<close> of the \<open>catch\<close>.\<close>

definition parse_or_raw :: "env \<Rightarrow> string \<Rightarrow> json" where
  "parse_or_raw e t = (case JSON_parse e t of None \<Rightarrow> JObj [(''raw'', JStr t)] | Some j \<Rightarrow> j)"

definition base_url :: "env \<Rightarrow> string" where
  "base_url e = or_default (EDM_URL e) ''https://api.edm.mydr.pl/secure/ext_api''"

text \<open>The body both routes send when \<open>refreshAccessTokenIfNeeded\<close> throws.\<close>

definition token_failure :: "exn \<Rightarrow> route_response" where
  "token_failure err =
     \<lparr>status = 502,
      body = JObj [(''error'', JStr ''failed_to_get_access_token''), (''details'', JStr (message err))]\<rparr>"

text \<open>The body of the outermost \<open>catch\<close> of a route.\<close>

definition server_error :: "string \<Rightarrow> route_response" where
  "server_error m =
     \<lparr>status = 500, body = JObj [(''error'', JStr ''server_error''), (''details'', JStr m)]\<rparr>"

definition error_response :: "nat \<Rightarrow> string \<Rightarrow> route_response" where
  "error_response st m = \<lparr>status = st, body = JObj [(''error'', JStr m)]\<rparr>"

text \<open>
  What the order-visit route answers when the upstream API rejects the patient or the
  visit: \<open>{ ok: false, step, status, body: parsed }\<close> with HTTP status 200, where \<open>parsed\<close>
  is the upstream body.
\<close>

definition patient_rejected :: "env \<Rightarrow> nat \<Rightarrow> string \<Rightarrow> route_response" where
  "patient_rejected e st respText =
     \<lparr>status = 200,
      body = JObj [(''ok'', JBool False), (''step'', JStr ''create_patient''),
                   (''status'', JNum (int st)), (''body'', parse_or_raw e respText)]\<rparr>"

definition visit_rejected :: "env \<Rightarrow> nat \<Rightarrow> string \<Rightarrow> route_response" where
  "visit_rejected e vStatus vText =
     \<lparr>status = 200,
      body = JObj [(''ok'', JBool False), (''step'', JStr ''create_visit''),
                   (''status'', JNum (int vStatus)), (''body'', parse_or_raw e vText)]\<rparr>"

subsection \<open>\<open>GET /api/edm/departments\<close>\<close>



subsection \<open>\<open>POST /api/edm/order-visit\<close>\<close>

text \<open>The request body, with the fields its documentation lists; each may be missing.\<close>

record order_body =
  userId :: "string option"
  name :: "string option"
  surname :: "string option"
  email :: "string option"
  pesel :: "string option"
  date_of_birth :: "string option"
  telephone :: "string option"
  visitDate :: "string option"

definition json_headers :: "string \<Rightarrow> (string \<times> string) list" where
  "json_headers accessToken =
     [(''Content-Type'', ''application/json''),
      (''Accept'', ''application/json''),
      (''Authorization'', ''Bearer '' @ accessToken)]"

text \<open>
  \<open>prisma.user.findUnique({ where: { id } })\<close> and
  \<open>prisma.user.update({ where: { id }, data: { externalPatientId } })\<close>; as in every
  Prisma update, a field given as \<open>undefined\<close> is left as it is.
\<close>

definition findUnique_user :: "string \<Rightarrow> world \<Rightarrow> User option" where
  "findUnique_user i w = find (\<lambda>u. user_id u = i) (user w)"

definition update_user :: "string \<Rightarrow> json \<Rightarrow> world \<Rightarrow> world" where
  "update_user i pid w =
     w\<lparr>user := map (\<lambda>u. if user_id u = i \<and> pid \<noteq> JUndefined
                           then u\<lparr>externalPatientId := pid\<rparr> else u) (user w),
       writes := Suc (writes w)\<rparr>"

text \<open>\<open>prisma.edmDoctorDepartment.findFirst({ orderBy: { createdAt: "desc" } })\<close>\<close>

definition findFirst_cfg :: "world \<Rightarrow> EdmDoctorDepartment option" where
  "findFirst_cfg w =
     (case edmDoctorDepartment w of
        [] \<Rightarrow> None
      | c # cs \<Rightarrow> Some (foldl (\<lambda>best x. if createdAt best < createdAt x then x else best) c cs))"

text \<open>
  The part of the handler from \<open>// get doctor & office\<close> on: the visit is created for
  the patient id found or just made.
\<close>

definition create_visit ::
  "env \<Rightarrow> string option \<Rightarrow> string \<Rightarrow> json \<Rightarrow> world \<Rightarrow> route_response \<times> world" where
  "create_visit e vdate accessToken patientId w =
     (case findFirst_cfg w of
        None \<Rightarrow> (error_response 400 ''no_edm_doctor_department_configured'', w)
      | Some edmCfg \<Rightarrow>
          (case (truthy (doctorExternalId edmCfg), truthy (departmentExternalId edmCfg)) of
             (Some doctor, Some office) \<Rightarrow>
               (let visitDateFinal =
                      (case vdate of None \<Rightarrow> take 10 (toISOString e (now w)) | Some d \<Rightarrow> d);
                    visitPayload =
                      JObj [(''patient'', JStr (js_String e patientId)),
                            (''doctor'', JStr doctor),
                            (''office'', JStr office),
                            (''date'', JStr visitDateFinal)]
                in case do_fetch e
                          \<lparr>url = base_url e @ ''/visits/'', http_method = ''POST'',
                           req_headers = json_headers accessToken,
                           payload = JsonBody visitPayload\<rparr> w of
                     (NetworkError m, w1) \<Rightarrow> (server_error m, w1)
                   | (Response vStatus vText, w1) \<Rightarrow>
                       if \<not> ok vStatus then (visit_rejected e vStatus vText, w1)
                       else
                         (\<lparr>status = 200,
                           body = JObj [(''ok'', JBool True), (''patientId'', patientId),
                                        (''visit'', parse_or_raw e vText)]\<rparr>, w1))
           | _ \<Rightarrow> (error_response 400 ''doctor or office not configured'', w)))"

text \<open>
  The part of the handler from \<open>// Ensure patient exists in EDM\<close> on, once the access
  token is there: the patient is created upstream unless the user already has an
  external patient id, and then the visit is created. Reading \<open>parsed.id\<close> throws when the
  upstream body is the JSON \<open>null\<close>; on any other value that is not an object it gives
  \<open>undefined\<close>.
\<close>

definition order_visit_with_token ::
  "env \<Rightarrow> order_body \<Rightarrow> User \<Rightarrow> string \<Rightarrow> string \<Rightarrow> string \<Rightarrow> string \<Rightarrow> world
     \<Rightarrow> route_response \<times> world" where
  "order_visit_with_token e b u uid nm sn accessToken w =
     (if json_truthy (externalPatientId u)
      then create_visit e (visitDate b) accessToken (externalPatientId u) w
      else
        (case do_fetch e
                \<lparr>url = base_url e @ ''/patients/'', http_method = ''POST'',
                 req_headers = json_headers accessToken,
                 payload = JsonBody
                   (buildPatientPayload nm sn (email b) (pesel b)
                      (date_of_birth b) (telephone b))\<rparr> w of
           (NetworkError m, w1) \<Rightarrow> (server_error m, w1)
         | (Response st respText, w1) \<Rightarrow>
             if \<not> ok st then (patient_rejected e st respText, w1)
             else
               (case parse_or_raw e respText of
                  JNull \<Rightarrow>
                    (server_error ''Cannot read properties of null (reading 'id')'', w1)
                | JObj kvs \<Rightarrow>
                    create_visit e (visitDate b) accessToken (get_prop ''id'' kvs)
                      (update_user uid (get_prop ''id'' kvs) w1)
                | _ \<Rightarrow>
                    create_visit e (visitDate b) accessToken JUndefined
                      (update_user uid JUndefined w1))))"

text \<open>
  The handler. Its second argument is what \<open>await req.json()\<close> gives: the body, or the
  error thrown for a request that is not JSON. An error thrown anywhere in the handler
  ends in the outermost \<open>catch\<close>, with status 500.
\<close>

definition order_visit_POST :: "env \<Rightarrow> exn + order_body \<Rightarrow> world \<Rightarrow> route_response \<times> world" where
  "order_visit_POST e rq w =
     (case rq of
        Inl err \<Rightarrow> (server_error (message err), w)
      | Inr b \<Rightarrow>
          (case truthy (userId b) of
             None \<Rightarrow> (error_response 400 ''userId is required'', w)
           | Some uid \<Rightarrow>
               (case (truthy (name b), truthy (surname b)) of
                  (Some nm, Some sn) \<Rightarrow>
                    (case findUnique_user uid w of
                       None \<Rightarrow> (error_response 404 ''user_not_found'', w)
                     | Some u \<Rightarrow>
                         (case findFirst_edmAuth w of
                            None \<Rightarrow> (error_response 404 ''No EDM credentials configured'', w)
                          | Some r \<Rightarrow>
                              (case refreshAccessTokenIfNeeded ''EDM refresh failed: '' e r w of
                                 (Inl err, w1) \<Rightarrow> (token_failure err, w1)
                               | (Inr accessToken, w1) \<Rightarrow>
                                   order_visit_with_token e b u uid nm sn accessToken w1)))
                | _ \<Rightarrow> (error_response 400 ''name and surname required'', w))))"

text \<open>
  A vocabulary for what one step of a handler adds to the trace: nothing, or one call to
  the given URL whose answer, when it is a response with a non-success status, makes
  \<open>P status text\<close> hold.
\<close>

definition one_call ::
  "string \<Rightarrow> (nat \<Rightarrow> string \<Rightarrow> bool) \<Rightarrow> (request \<times> fetch_outcome) list \<Rightarrow> bool" where
  "one_call u P xs =
     (case xs of
        [] \<Rightarrow> True
      | (q, out) # rest \<Rightarrow>
          rest = [] \<and> url q = u \<and>
          (case out of
             NetworkError m \<Rightarrow> True
           | Response st txt \<Rightarrow> if ok st then True else P st txt))"

section \<open>A sample environment\<close>

text \<open>
  Concrete values on which the properties below are instantiated: a cipher that prefixes
  the plaintext with one \<open>#\<close> per nonce and a bar, a network that answers every call the
  same way, and a store of rows that are all due.
\<close>

definition sample_encrypt :: "nat \<Rightarrow> string \<Rightarrow> exn + string" where
  "sample_encrypt n t = Inr (replicate n (CHR ''#'') @ ''|'' @ t)"

definition sample_decrypt :: "string \<Rightarrow> exn + string" where
  "sample_decrypt c =
     (case dropWhile (\<lambda>x. x = CHR ''#'') c of
        [] \<Rightarrow> Inl (Error ''Unsupported state or unable to authenticate data'')
      | x # t \<Rightarrow>
          if x = CHR ''|'' then Inr t
          else Inl (Error ''Unsupported state or unable to authenticate data''))"

definition sample_env :: "string option \<Rightarrow> nat \<times> fetch_outcome \<Rightarrow> token_response \<Rightarrow> env" where
  "sample_env vercel reply d =
     \<lparr>ADMIN_REFRESH_KEY = Some ''secret'',
      VERCEL = vercel,
      EDM_CLIENT_ID = Some ''client'',
      EDM_CLIENT_SECRET = Some ''client-secret'',
      EDM_URL = None,
      decryptToken = sample_decrypt,
      encryptToken = sample_encrypt,
      hashToken = (\<lambda>t. ''sha:'' @ t),
      fetch = (\<lambda>n rq. reply),
      token_json = (\<lambda>txt. Inr d),
      JSON_parse = (\<lambda>t. None),
      js_String = (\<lambda>j. case j of JStr t \<Rightarrow> t | _ \<Rightarrow> ''undefined''),
      toISOString = (\<lambda>t. ''2026-01-01T00:00:00.000Z''),
      status_error = (\<lambda>st. ''Invalid response status code'')\<rparr>"

definition sample_row :: "string \<Rightarrow> string \<Rightarrow> EdmAuth" where
  "sample_row i c =
     \<lparr>rec_id = i,
      encryptedAccessToken = None,
      accessTokenExpiresAt = Some 5,
      encryptedRefreshToken = c,
      refreshTokenHash = ''sha:old'',
      lastRefreshedAt = None,
      nextRefreshAt = 0,
      refreshFailureCount = 2,
      revoked = False\<rparr>"

definition sample_world :: "EdmAuth list \<Rightarrow> world" where
  "sample_world rows =
     \<lparr>edmAuth = rows,
      user = [\<lparr>user_id = ''u1'', externalPatientId = JNull\<rparr>],
      edmDoctorDepartment =
        [\<lparr>createdAt = 0, doctorExternalId = Some ''7'', departmentExternalId = Some ''3''\<rparr>],
      now = 1000000,
      trace = [],
      writes = 0,
      nonce = 0\<rparr>"

text \<open>A store of \<open>n\<close> non-revoked rows with distinct ids.\<close>

definition sample_rows :: "nat \<Rightarrow> EdmAuth list" where
  "sample_rows n = map (\<lambda>k. sample_row (replicate (Suc k) (CHR ''r'')) ''|old'') [0..<n]"

definition no_headers :: headers where
  "no_headers = (\<lambda>h. None)"


definition admin_headers :: headers where
  "admin_headers = (\<lambda>h. if h = ''x-admin-key'' then Some ''secret'' else None)"

definition cron_headers :: headers where
  "cron_headers = (\<lambda>h. if h = ''x-vercel-cron'' then Some ''1'' else None)"

definition sample_token :: token_response where
  "sample_token = \<lparr>access_token = Some ''A'', refresh_token = None, expires_in = Some 3600\<rparr>"



definition token_without_access :: token_response where
  "token_without_access = \<lparr>access_token = None, refresh_token = None, expires_in = Some 3600\<rparr>"

text \<open>A row whose access token \<open>A\<close> is stored and expires at the given time.\<close>

definition fresh_row :: "int \<Rightarrow> EdmAuth" where
  "fresh_row x =
     (sample_row ''r1'' ''|old'')\<lparr>encryptedAccessToken := Some ''|A'', accessTokenExpiresAt := Some x\<rparr>"

definition sample_body :: order_body where
  "sample_body =
     \<lparr>userId = Some ''u1'', name = Some ''Jan'', surname = Some ''Kowalski'', email = None,
      pesel = Some ''44051401359'', date_of_birth = None, telephone = Some [],
      visitDate = None\<rparr>"

text \<open>
  An upstream validation body, \<open>{"pesel":"invalid"}\<close> (\<open>CHR 0x22\<close> is the double quote),
  and an environment whose \<open>JSON.parse\<close> reads it.
\<close>

definition pesel_error_text :: string where
  "pesel_error_text =
     ''{'' @ [CHR 0x22] @ ''pesel'' @ [CHR 0x22, CHR '':'', CHR 0x22] @ ''invalid'' @ [CHR 0x22] @ ''}''"

definition sample_parse :: "string \<Rightarrow> json option" where
  "sample_parse t =
     (if t = pesel_error_text then Some (JObj [(''pesel'', JStr ''invalid'')]) else None)"

definition parsing_env :: "nat \<times> fetch_outcome \<Rightarrow> env" where
  "parsing_env reply = (sample_env None reply sample_token)\<lparr>JSON_parse := sample_parse\<rparr>"

text \<open>The sample world with a user who already has an external patient id.\<close>

definition world_with_patient :: "EdmAuth list \<Rightarrow> world" where
  "world_with_patient rows =
     (sample_world rows)\<lparr>user := [\<lparr>user_id = ''u1'', externalPatientId = JStr ''p9''\<rparr>]\<rparr>"


section \<open>Properties of the sweep\<close>

lemmas sample_defs =
  sample_env_def sample_row_def sample_world_def sample_decrypt_def sample_encrypt_def
  sample_token_def

subsection \<open>A refresh never changes which rows are revoked\<close>

lemma edmAuth_do_fetch: "do_fetch e rq w = (out, w1) \<Longrightarrow> edmAuth w1 = edmAuth w"
  by (auto simp: do_fetch_def split: prod.splits)

lemma edmAuth_encrypt: "encrypt e t w = (out, w1) \<Longrightarrow> edmAuth w1 = edmAuth w"
  by (auto simp: encrypt_def)

lemma edmAuth_rotate: "rotate e r rt w = (out, w1) \<Longrightarrow> edmAuth w1 = edmAuth w"
  by (auto simp: rotate_def encrypt_def split: option.splits sum.splits prod.splits)

lemma revoked_update_edmAuth:
  "(\<And>r. revoked (f r) = revoked r) \<Longrightarrow>
   map revoked (edmAuth (update_edmAuth i f w)) = map revoked (edmAuth w)"
  by (simp add: update_edmAuth_def)

lemma revoked_applyFailure: "map revoked (edmAuth (applyFailure i w)) = map revoked (edmAuth w)"
  by (simp add: applyFailure_def revoked_update_edmAuth failure_data_def)

lemma revoked_success:
  "map revoked (edmAuth (update_edmAuth i (success_data a x c h t) w)) = map revoked (edmAuth w)"
  by (simp add: revoked_update_edmAuth success_data_def)

lemma revoked_refreshRecord_try:
  "refreshRecord_try e r w = (out, w1) \<Longrightarrow> map revoked (edmAuth w1) = map revoked (edmAuth w)"
  unfolding refreshRecord_try_def
  by (auto split: sum.splits prod.splits fetch_outcome.splits if_splits option.splits
      simp: revoked_applyFailure revoked_success
      dest!: edmAuth_do_fetch edmAuth_encrypt edmAuth_rotate)

lemma revoked_refreshRecord:
  "refreshRecord e r w = (out, w1) \<Longrightarrow> map revoked (edmAuth w1) = map revoked (edmAuth w)"
  unfolding refreshRecord_def
  by (auto split: sum.splits prod.splits simp: revoked_applyFailure dest!: revoked_refreshRecord_try)

lemma revoked_refresh_page:
  "refresh_page e rs w results = (out, w1) \<Longrightarrow> map revoked (edmAuth w1) = map revoked (edmAuth w)"
proof (induction rs arbitrary: w results)
  case Nil
  then show ?case by simp
next
  case (Cons r rs)
  then show ?case
    by (auto split: prod.splits dest!: revoked_refreshRecord)
qed

lemma length_filter_map_eq:
  assumes "map f xs = map f ys"
  shows "length (filter (\<lambda>r. \<not> f r) xs) = length (filter (\<lambda>r. \<not> f r) ys)"
proof -
  have "length (filter (\<lambda>r. \<not> f r) zs) = length (filter (\<lambda>b. \<not> b) (map f zs))" for zs
    by (induction zs) auto
  with assms show ?thesis by metis
qed

lemma length_findMany_page:
  "refresh_page e rs w results = (out, w1) \<Longrightarrow> length (findMany n w1) = length (findMany n w)"
  by (auto simp: findMany_def dest!: revoked_refresh_page length_filter_map_eq)

subsection \<open>The loop leaves only after a short page\<close>

text \<open>
  Every \<open>findMany\<close> of the loop asks for the first \<open>batchSize\<close> non-revoked rows: there is
  no \<open>skip\<close> or cursor, and a refresh does not revoke a row. So a run that returns has
  seen a page shorter than \<open>batchSize\<close> at its very first fetch.
\<close>

lemma sweep_returns_short:
  assumes "sweep e w results = Some out"
  shows "length (findMany batchSize w) < batchSize"
proof (rule sweep.raw_induct
    [where P = "\<lambda>e w results out. length (findMany batchSize w) < batchSize", OF _ assms])
  fix sweep' :: "env \<Rightarrow> world \<Rightarrow> refresh_result list \<Rightarrow> (refresh_result list \<times> world) option"
  fix e w results out
  assume IH: "\<And>e w results out. sweep' e w results = Some out \<Longrightarrow>
                length (findMany batchSize w) < batchSize"
  assume step: "(let toRefresh = findMany batchSize w in
      if toRefresh = [] then Some (results, w)
      else
        (case refresh_page e toRefresh w results of
           (results1, w1) \<Rightarrow>
             if length toRefresh < batchSize then Some (results1, w1)
             else sweep' e w1 results1)) = Some out"
  show "length (findMany batchSize w) < batchSize"
  proof (cases "length (findMany batchSize w) < batchSize")
    case True
    then show ?thesis .
  next
    case False
    then have ne: "findMany batchSize w \<noteq> []" by (auto simp: batchSize_def)
    obtain rs1 w1 where p: "refresh_page e (findMany batchSize w) w results = (rs1, w1)"
      by (cases "refresh_page e (findMany batchSize w) w results")
    from step ne False p have "sweep' e w1 rs1 = Some out"
      by (simp add: Let_def)
    from IH[OF this] have "length (findMany batchSize w1) < batchSize" .
    with length_findMany_page[OF p] show ?thesis by simp
  qed
qed

lemma sweep_never_returns:
  assumes "batchSize \<le> length (filter (\<lambda>r. \<not> revoked r) (edmAuth w))"
  shows "sweep e w results = None"
proof -
  from assms have "\<not> length (findMany batchSize w) < batchSize"
    by (simp add: findMany_def)
  with sweep_returns_short show ?thesis
    by (cases "sweep e w results") auto
qed

lemma length_active_sample_rows:
  "length (filter (\<lambda>r. \<not> revoked r) (edmAuth (sample_world (sample_rows n)))) = n"
  by (simp add: sample_world_def sample_rows_def sample_row_def filter_map o_def)

text \<open>
  Claim C1 (sweep exhaustion). The claim says that for every store the unconditional
  sweep terminates with one outcome per non-revoked entry, and that 250 entries take three
  page fetches. The loop does not do that: with at least \<open>batchSize\<close> (100) non-revoked
  entries, an authorised request never gets an answer, because every page fetch returns
  the same full page.
\<close>

theorem sweep_full_page_never_returns:
  assumes "checkAuth e hdrs"
    and "batchSize \<le> length (filter (\<lambda>r. \<not> revoked r) (edmAuth w))"
  shows "refresh_all_POST e hdrs w = None"
  using assms by (simp add: refresh_all_POST_def sweep_never_returns)

text \<open>The store of the claim: 250 non-revoked entries, and the admin key in the request.\<close>

theorem sweep_250_never_returns:
  "refresh_all_POST (sample_env None (0, Response 200 []) sample_token) admin_headers
     (sample_world (sample_rows 250)) = None"
proof -
  have a: "checkAuth (sample_env None (0, Response 200 []) sample_token) admin_headers"
    by (simp add: checkAuth_def sample_env_def admin_headers_def)
  have b: "batchSize \<le> length (filter (\<lambda>r. \<not> revoked r) (edmAuth (sample_world (sample_rows 250))))"
    by (simp add: length_active_sample_rows batchSize_def)
  show ?thesis using sweep_full_page_never_returns [OF a b] .
qed

text \<open>
  Claim C8 (authorisation of the sweep), as the claim states it, fails: a request that
  carries neither the bearer secret nor the \<open>x-admin-key\<close> header is accepted when the
  process runs on Vercel (\<open>VERCEL=1\<close>) and the request has an \<open>x-vercel-cron\<close> header; the
  sweep runs (here over an empty store) and the answer is 200.
\<close>

theorem cron_header_is_accepted:
  "cron_headers ''authorization'' = None \<and> cron_headers ''x-admin-key'' = None
   \<and> ADMIN_REFRESH_KEY (sample_env (Some ''1'') (0, Response 200 []) sample_token) = Some ''secret''
   \<and> checkAuth (sample_env (Some ''1'') (0, Response 200 []) sample_token) cron_headers
   \<and> refresh_all_POST (sample_env (Some ''1'') (0, Response 200 []) sample_token) cron_headers
        (sample_world []) =
      Some (\<lparr>status = 200, body = JObj [(''processed'', JNum 0), (''results'', JArr [])]\<rparr>,
            sample_world [])"
  by (simp add: cron_headers_def sample_env_def checkAuth_def refresh_all_POST_def sweep.simps
      findMany_def sample_world_def)

text \<open>
  Claim C8, amended. With an admin key configured, a request is accepted exactly when it
  presents that key (as \<open>Authorization: Bearer key\<close> or as \<open>x-admin-key\<close>) or, with
  \<open>VERCEL=1\<close>, carries an \<open>x-vercel-cron\<close> header; every other request gets 401 and the
  world is left as it was (no network call, no store write).
\<close>

theorem checkAuth_gate:
  assumes "ADMIN_REFRESH_KEY e = Some key"
  shows "checkAuth e hdrs =
           (hdrs ''authorization'' = Some (''Bearer '' @ key) \<or>
            hdrs ''x-admin-key'' = Some key \<or>
            (VERCEL e = Some ''1'' \<and> hdrs ''x-vercel-cron'' \<noteq> None))
       \<and> (\<not> checkAuth e hdrs \<longrightarrow>
            refresh_all_POST e hdrs w =
              Some (\<lparr>status = 401, body = JObj [(''error'', JStr ''unauthorized'')]\<rparr>, w))"
  using assms
  by (cases "hdrs ''authorization''") (auto simp: checkAuth_def refresh_all_POST_def Let_def)

text \<open>
  With the key \<open>secret\<close> configured: a request without headers gets 401 and nothing is
  touched, a request with the key in \<open>x-admin-key\<close> is accepted.
\<close>

theorem checkAuth_gate_witness:
  "ADMIN_REFRESH_KEY (sample_env None (0, Response 200 []) sample_token) = Some ''secret''
   \<and> \<not> checkAuth (sample_env None (0, Response 200 []) sample_token) no_headers
   \<and> refresh_all_POST (sample_env None (0, Response 200 []) sample_token) no_headers
        (sample_world (sample_rows 3)) =
      Some (\<lparr>status = 401, body = JObj [(''error'', JStr ''unauthorized'')]\<rparr>,
            sample_world (sample_rows 3))
   \<and> checkAuth (sample_env None (0, Response 200 []) sample_token) admin_headers"
proof -
  have k: "ADMIN_REFRESH_KEY (sample_env None (0, Response 200 []) sample_token) = Some ''secret''"
    by (simp add: sample_env_def)
  show ?thesis
    using k
      checkAuth_gate [OF k, of no_headers "sample_world (sample_rows 3)"]
      checkAuth_gate [OF k, of admin_headers "sample_world (sample_rows 3)"]
    by (simp add: no_headers_def admin_headers_def)
qed

section \<open>Properties of a refresh attempt\<close>

subsection \<open>Reading a row back after an update\<close>

lemma find_row_update:
  assumes "find_row i w = Some s" and "\<And>x. rec_id (f x) = rec_id x"
  shows "find_row i (update_edmAuth i f w) = Some (f s)"
proof -
  have "find (\<lambda>r. rec_id r = i) xs = Some s \<Longrightarrow>
        find (\<lambda>r. rec_id r = i) (map (\<lambda>r. if rec_id r = i then f r else r) xs) = Some (f s)" for xs
    by (induction xs) (auto simp: assms(2))
  with assms(1) show ?thesis
    by (simp add: find_row_def update_edmAuth_def)
qed

lemma find_row_applyFailure:
  "find_row i w = Some s \<Longrightarrow>
   find_row i (applyFailure i w) = Some (failure_data (now w) s)"
  by (simp add: applyFailure_def find_row_update failure_data_def)

lemma find_row_success:
  "find_row i w = Some s \<Longrightarrow>
   find_row i (update_edmAuth i (success_data a x c h t) w) = Some (success_data a x c h t s)"
  by (simp add: find_row_update success_data_def)

lemma find_row_clock [simp]:
  "find_row i (w\<lparr>now := t, trace := n\<rparr>) = find_row i w"
  "find_row i (w\<lparr>nonce := k\<rparr>) = find_row i w"
  by (simp_all add: find_row_def)

lemma now_update_edmAuth [simp]: "now (update_edmAuth i f w) = now w"
  by (simp add: update_edmAuth_def)

lemma now_applyFailure [simp]: "now (applyFailure i w) = now w"
  by (simp add: applyFailure_def)

lemma trace_update_edmAuth [simp]: "trace (update_edmAuth i f w) = trace w"
  by (simp add: update_edmAuth_def)

lemma trace_applyFailure [simp]: "trace (applyFailure i w) = trace w"
  by (simp add: applyFailure_def)

lemma trace_encrypt: "encrypt e t w = (out, w1) \<Longrightarrow> trace w1 = trace w"
  by (auto simp: encrypt_def)

lemma trace_rotate: "rotate e r rt w = (out, w1) \<Longrightarrow> trace w1 = trace w"
  by (auto simp: rotate_def encrypt_def split: option.splits sum.splits prod.splits)

subsection \<open>A rejected grant\<close>

lemma refresh_grant_rejected:
  assumes "decryptToken e (encryptedRefreshToken r) = Inr raw"
    and "fetch e (calls w) (token_request e raw) = (dt, Response st tx)"
    and "\<not> ok st"
  shows "refresh_grant prefix e r w =
           (Inl (Error (prefix @ tx)),
            applyFailure (rec_id r)
              (w\<lparr>now := now w + int dt,
                 trace := trace w @ [(token_request e raw, Response st tx)]\<rparr>))"
  using assms by (simp add: refresh_grant_def do_fetch_def calls_def)

lemma refreshRecord_rejected:
  assumes "decryptToken e (encryptedRefreshToken r) = Inr raw"
    and "fetch e (calls w) (token_request e raw) = (dt, Response st tx)"
    and "\<not> ok st"
  shows "refreshRecord e r w =
           (RefreshFailed (rec_id r) tx,
            applyFailure (rec_id r)
              (w\<lparr>now := now w + int dt,
                 trace := trace w @ [(token_request e raw, Response st tx)]\<rparr>))"
  using assms by (simp add: refreshRecord_def refreshRecord_try_def do_fetch_def calls_def)

text \<open>
  Claim C4 (failure backoff). When the token endpoint answers a refresh attempt with a
  non-success status, in the sweep and on the request path (when the stored access token
  is not served from the store) alike, the stored row is the old row with
  \<open>refreshFailureCount\<close> one higher and \<open>nextRefreshAt\<close> one hour after the clock reading
  at the update; every other field of the row, the token material among them, is as
  before. The sweep returns a failure outcome, the request path throws the error with the
  upstream body in its message.
\<close>

theorem upstream_rejection_backoff:
  assumes "decryptToken e (encryptedRefreshToken r) = Inr raw"
    and "fetch e (calls w) (token_request e raw) = (dt, Response st tx)"
    and "\<not> ok st"
    and "find_row (rec_id r) w = Some s"
  shows "(case refreshRecord e r w of
            (res, w') \<Rightarrow>
              res = RefreshFailed (rec_id r) tx \<and> now w' = now w + int dt \<and>
              find_row (rec_id r) w' =
                Some (s\<lparr>refreshFailureCount := refreshFailureCount s + 1,
                        nextRefreshAt := now w' + 60 * 60 * 1000\<rparr>))
       \<and> (valid_access_token r w = None \<longrightarrow>
           (case refreshAccessTokenIfNeeded prefix e r w of
              (res, w') \<Rightarrow>
                res = Inl (Error (prefix @ tx)) \<and> now w' = now w + int dt \<and>
                find_row (rec_id r) w' =
                  Some (s\<lparr>refreshFailureCount := refreshFailureCount s + 1,
                          nextRefreshAt := now w' + 60 * 60 * 1000\<rparr>)))"
proof -
  let ?w1 = "w\<lparr>now := now w + int dt,
               trace := trace w @ [(token_request e raw, Response st tx)]\<rparr>"
  have row: "find_row (rec_id r) (applyFailure (rec_id r) ?w1) =
               Some (s\<lparr>refreshFailureCount := refreshFailureCount s + 1,
                       nextRefreshAt := now w + int dt + 60 * 60 * 1000\<rparr>)"
    using assms(4) by (simp add: find_row_applyFailure failure_data_def)
  have a: "refreshAccessTokenIfNeeded prefix e r w =
             (Inl (Error (prefix @ tx)), applyFailure (rec_id r) ?w1)"
    if "valid_access_token r w = None"
    using that refresh_grant_rejected [OF assms(1,2,3)]
    by (simp add: refreshAccessTokenIfNeeded_def)
  have b: "refreshRecord e r w = (RefreshFailed (rec_id r) tx, applyFailure (rec_id r) ?w1)"
    by (rule refreshRecord_rejected [OF assms(1,2,3)])
  show ?thesis
    by (simp add: a b row)
qed

text \<open>
  The specification's example: an upstream 400, here 7 ms after a clock reading of
  1000000, on a row with two earlier failures.
\<close>

theorem upstream_rejection_backoff_witness:
  "valid_access_token (sample_row ''r1'' ''|old'') (sample_world [sample_row ''r1'' ''|old'']) = None
   \<and> \<not> ok 400
   \<and> (case refreshRecord (sample_env None (7, Response 400 ''invalid_grant'') sample_token)
              (sample_row ''r1'' ''|old'') (sample_world [sample_row ''r1'' ''|old'']) of
          (res, w') \<Rightarrow>
            res = RefreshFailed ''r1'' ''invalid_grant'' \<and> now w' = 1000007 \<and>
            find_row ''r1'' w' =
              Some ((sample_row ''r1'' ''|old'')\<lparr>refreshFailureCount := 3, nextRefreshAt := 4600007\<rparr>))
   \<and> (case refreshAccessTokenIfNeeded ''EDM refresh failed: ''
              (sample_env None (7, Response 400 ''invalid_grant'') sample_token)
              (sample_row ''r1'' ''|old'') (sample_world [sample_row ''r1'' ''|old'']) of
          (res, w') \<Rightarrow>
            res = Inl (Error ''EDM refresh failed: invalid_grant'') \<and> now w' = 1000007 \<and>
            find_row ''r1'' w' =
              Some ((sample_row ''r1'' ''|old'')\<lparr>refreshFailureCount := 3, nextRefreshAt := 4600007\<rparr>))"
  using upstream_rejection_backoff
    [where r = "sample_row ''r1'' ''|old''" and w = "sample_world [sample_row ''r1'' ''|old'']"
       and e = "sample_env None (7, Response 400 ''invalid_grant'') sample_token"
       and raw = "''old''" and dt = 7 and st = 400 and tx = "''invalid_grant''"
       and s = "sample_row ''r1'' ''|old''" and prefix = "''EDM refresh failed: ''"]
  by (simp add: sample_defs valid_access_token_def ok_def find_row_def token_request_def
      calls_def split: prod.splits)

subsection \<open>A granted refresh\<close>







subsection \<open>The fast path\<close>

lemma calls_refresh_grant:
  "calls (snd (refresh_grant prefix e r w)) =
     (case decryptToken e (encryptedRefreshToken r) of
        Inl err \<Rightarrow> calls w
      | Inr raw \<Rightarrow> Suc (calls w))"
  unfolding refresh_grant_def
  by (auto simp: do_fetch_def encrypt_def calls_def
      split: sum.splits prod.splits fetch_outcome.splits option.splits dest!: trace_rotate)

text \<open>
  Claim C6 (fast path), as the claim states it, fails in one direction: an entry with
  no stored access token needs a refresh, yet no network call is made when its refresh
  token does not decrypt. \<open>decryptToken\<close> throws before \<open>fetch\<close> is reached, and the world
  is left as it was.
\<close>

theorem no_call_when_refresh_token_corrupt:
  "encryptedAccessToken (sample_row ''r1'' ''garbage'') = None
   \<and> refreshAccessTokenIfNeeded ''EDM refresh failed: ''
        (sample_env None (7, Response 200 []) sample_token)
        (sample_row ''r1'' ''garbage'') (sample_world [sample_row ''r1'' ''garbage'']) =
      (Inl (Error ''Unsupported state or unable to authenticate data''),
       sample_world [sample_row ''r1'' ''garbage''])
   \<and> calls (sample_world [sample_row ''r1'' ''garbage'']) = 0"
  by (simp add: sample_defs refreshAccessTokenIfNeeded_def valid_access_token_def
      refresh_grant_def calls_def)

text \<open>
  Claim C6, amended. When the entry holds a non-empty \<open>encryptedAccessToken\<close> and an
  \<open>accessTokenExpiresAt\<close> more than 60 seconds after the clock reading, the function
  returns what decrypting the stored access token gives and leaves the world exactly as
  it was: no network call, no store write. In every other case (the access token absent
  or empty, the expiry absent, or the expiry not more than 60 seconds ahead) it makes
  exactly one network call if the stored refresh token decrypts, and none if it does not.
\<close>

theorem access_token_fast_path:
  "(case valid_access_token r w of
      Some c \<Rightarrow>
        encryptedAccessToken r = Some c \<and>
        refreshAccessTokenIfNeeded prefix e r w = (decryptToken e c, w)
    | None \<Rightarrow>
        calls (snd (refreshAccessTokenIfNeeded prefix e r w)) =
          (case decryptToken e (encryptedRefreshToken r) of
             Inl err \<Rightarrow> calls w
           | Inr raw \<Rightarrow> Suc (calls w)))
   \<and> (valid_access_token r w = None) =
       (truthy (encryptedAccessToken r) = None \<or>
        (case accessTokenExpiresAt r of None \<Rightarrow> True | Some x \<Rightarrow> x \<le> now w + 60 * 1000))"
proof -
  have c: "(valid_access_token r w = None) =
       (truthy (encryptedAccessToken r) = None \<or>
        (case accessTokenExpiresAt r of None \<Rightarrow> True | Some x \<Rightarrow> x \<le> now w + 60 * 1000))"
    by (auto simp: valid_access_token_def split: option.splits)
  have a: "valid_access_token r w = Some c \<Longrightarrow> encryptedAccessToken r = Some c" for c
    by (cases "encryptedAccessToken r")
       (auto simp: valid_access_token_def split: option.splits if_splits)
  show ?thesis
  proof (cases "valid_access_token r w")
    case None
    then show ?thesis
      using c by (simp add: refreshAccessTokenIfNeeded_def calls_refresh_grant)
  next
    case (Some c')
    then show ?thesis
      using c a by (simp add: refreshAccessTokenIfNeeded_def)
  qed
qed

text \<open>
  The specification's two examples: an expiry ten minutes ahead is served from the store,
  an expiry 30 seconds ahead triggers a refresh call.
\<close>

theorem access_token_fast_path_witness:
  "refreshAccessTokenIfNeeded ''EDM refresh failed: ''
        (sample_env None (7, Response 200 []) sample_token)
        (fresh_row 1600000) (sample_world [fresh_row 1600000]) =
      (Inr ''A'', sample_world [fresh_row 1600000])
   \<and> valid_access_token (fresh_row 1030000) (sample_world [fresh_row 1030000]) = None
   \<and> calls (snd (refreshAccessTokenIfNeeded ''EDM refresh failed: ''
        (sample_env None (7, Response 200 []) sample_token)
        (fresh_row 1030000) (sample_world [fresh_row 1030000]))) = 1"
  using access_token_fast_path
    [where r = "fresh_row 1600000" and w = "sample_world [fresh_row 1600000]"
       and prefix = "''EDM refresh failed: ''"
       and e = "sample_env None (7, Response 200 []) sample_token"]
    access_token_fast_path
    [where r = "fresh_row 1030000" and w = "sample_world [fresh_row 1030000]"
       and prefix = "''EDM refresh failed: ''"
       and e = "sample_env None (7, Response 200 []) sample_token"]
  by (simp add: sample_defs fresh_row_def valid_access_token_def calls_def)

subsection \<open>Attempts that leave the schedule or the outcome wrong\<close>

text \<open>
  Claim C2 (\<open>nextRefreshAt\<close> is pushed forward by every attempt). On the request path
  two kinds of failed attempt leave the row untouched, with its \<open>nextRefreshAt\<close> (0) still
  before the clock reading (1000000): the refresh token that does not decrypt, and the
  success status whose body has no \<open>access_token\<close>. In both the function throws without
  the failure update that it issues for a non-success status, and that \<open>refreshRecord\<close>
  issues for every error.
\<close>

theorem request_path_leaves_nextRefreshAt:
  "refreshAccessTokenIfNeeded ''EDM refresh failed: ''
        (sample_env None (7, Response 200 []) sample_token)
        (sample_row ''r1'' ''garbage'') (sample_world [sample_row ''r1'' ''garbage'']) =
      (Inl (Error ''Unsupported state or unable to authenticate data''),
       sample_world [sample_row ''r1'' ''garbage''])
   \<and> refreshAccessTokenIfNeeded ''EDM refresh failed: ''
        (sample_env None (7, Response 200 []) token_without_access)
        (sample_row ''r1'' ''|old'') (sample_world [sample_row ''r1'' ''|old'']) =
      (Inl (Error ''No access_token in refresh response''),
       (sample_world [sample_row ''r1'' ''|old''])
         \<lparr>now := 1000007,
          trace := [(token_request (sample_env None (7, Response 200 []) token_without_access) ''old'',
                     Response 200 [])]\<rparr>)
   \<and> nextRefreshAt (sample_row ''r1'' ''|old'') = 0
   \<and> nextRefreshAt (sample_row ''r1'' ''garbage'') = 0"
  by (simp add: sample_defs token_without_access_def refreshAccessTokenIfNeeded_def
      valid_access_token_def refresh_grant_def do_fetch_def ok_def)

text \<open>
  Claim C3 (a success status without \<open>access_token\<close> is a failure). In the sweep it is
  not: \<open>refreshRecord\<close> has no test of \<open>access_token\<close>, leaves the stored access token as
  it is, applies the success update (failure count back to 0, next refresh in eight hours,
  a new expiry) and reports \<open>ok: true\<close>.
\<close>

theorem sweep_reports_success_without_access_token:
  "access_token token_without_access = None
   \<and> refreshRecord (sample_env None (7, Response 200 []) token_without_access)
        (sample_row ''r1'' ''|old'') (sample_world [sample_row ''r1'' ''|old'']) =
      (RefreshOk ''r1'' 29800007,
       (sample_world
          [(sample_row ''r1'' ''|old'')
             \<lparr>accessTokenExpiresAt := Some 4600007, lastRefreshedAt := Some 1000007,
              nextRefreshAt := 29800007, refreshFailureCount := 0\<rparr>])
         \<lparr>now := 1000007,
          trace := [(token_request (sample_env None (7, Response 200 []) token_without_access) ''old'',
                     Response 200 [])],
          writes := 1\<rparr>)"
  by (simp add: sample_defs token_without_access_def refreshRecord_def refreshRecord_try_def
      do_fetch_def ok_def rotate_def update_edmAuth_def success_data_def)


section \<open>Properties of the routes that need an access token\<close>

subsection \<open>What a handler adds to the trace\<close>

lemma do_fetch_trace: "do_fetch e rq w = (out, w1) \<Longrightarrow> trace w1 = trace w @ [(rq, out)]"
  by (auto simp: do_fetch_def split: prod.splits)

lemma trace_update_user [simp]: "trace (update_user i p w) = trace w"
  by (simp add: update_user_def)

lemma one_call_Nil [simp]: "one_call u P []"
  by (simp add: one_call_def)

lemma one_call_single:
  "one_call u P [(q, out)] =
     (url q = u \<and> (case out of NetworkError m \<Rightarrow> True
                    | Response st tx \<Rightarrow> if ok st then True else P st tx))"
  by (simp add: one_call_def)

lemma one_call_mono:
  "one_call u P xs \<Longrightarrow> (\<And>st tx. \<not> ok st \<Longrightarrow> P st tx \<Longrightarrow> Q st tx) \<Longrightarrow> one_call u Q xs"
  by (auto simp: one_call_def split: list.splits fetch_outcome.splits if_splits)

lemma one_call_member:
  "one_call u P xs \<Longrightarrow> (q, Response st tx) \<in> set xs \<Longrightarrow> url q = u \<and> (ok st \<or> P st tx)"
  by (auto simp: one_call_def split: list.splits fetch_outcome.splits if_splits)

lemma refresh_grant_trace:
  assumes "refresh_grant prefix e r w = (res, w1)"
  shows "\<exists>xs. trace w1 = trace w @ xs \<and>
              one_call (base_url e @ ''/o/token/'') (\<lambda>st tx. res = Inl (Error (prefix @ tx))) xs"
proof (cases "decryptToken e (encryptedRefreshToken r)")
  case (Inl err)
  with assms have "trace w1 = trace w @ []" by (simp add: refresh_grant_def)
  then show ?thesis using one_call_Nil by blast
next
  case (Inr raw)
  obtain out w0 where f: "do_fetch e (token_request e raw) w = (out, w0)"
    by (cases "do_fetch e (token_request e raw) w")
  have t0: "trace w0 = trace w @ [(token_request e raw, out)]"
    using f by (rule do_fetch_trace)
  have u: "url (token_request e raw) = base_url e @ ''/o/token/''"
    by (simp add: token_request_def base_url_def)
  have t1: "trace w1 = trace w0"
    using assms Inr f
    by (auto simp: refresh_grant_def split: fetch_outcome.splits if_splits sum.splits
        option.splits prod.splits dest!: trace_encrypt trace_rotate)
  have r: "(case out of
             NetworkError m \<Rightarrow> True
           | Response st tx \<Rightarrow> if ok st then True else res = Inl (Error (prefix @ tx)))"
    using assms Inr f
    by (auto simp: refresh_grant_def split: fetch_outcome.splits if_splits)
  have "one_call (base_url e @ ''/o/token/'') (\<lambda>st tx. res = Inl (Error (prefix @ tx)))
          [(token_request e raw, out)]"
    using u r by (simp add: one_call_single)
  with t0 t1 show ?thesis by auto
qed

lemma refreshAccessTokenIfNeeded_trace:
  assumes "refreshAccessTokenIfNeeded prefix e r w = (res, w1)"
  shows "\<exists>xs. trace w1 = trace w @ xs \<and>
              one_call (base_url e @ ''/o/token/'') (\<lambda>st tx. res = Inl (Error (prefix @ tx))) xs"
proof (cases "valid_access_token r w")
  case None
  with assms show ?thesis
    by (simp add: refreshAccessTokenIfNeeded_def refresh_grant_trace)
next
  case (Some c)
  with assms have "trace w1 = trace w @ []"
    by (auto simp: refreshAccessTokenIfNeeded_def)
  then show ?thesis using one_call_Nil by blast
qed

lemma create_visit_trace:
  assumes "create_visit e vd tok pid w = (resp, w')"
  shows "\<exists>xs. trace w' = trace w @ xs \<and>
              one_call (base_url e @ ''/visits/'') (\<lambda>st tx. resp = visit_rejected e st tx) xs"
proof (cases "findFirst_cfg w")
  case None
  with assms have "trace w' = trace w @ []" by (simp add: create_visit_def)
  then show ?thesis using one_call_Nil by blast
next
  case (Some cfg)
  show ?thesis
  proof (cases "truthy (doctorExternalId cfg)")
    case None
    with assms Some have "trace w' = trace w @ []" by (auto simp: create_visit_def)
    then show ?thesis using one_call_Nil by blast
  next
    case d: (Some doctor)
    show ?thesis
    proof (cases "truthy (departmentExternalId cfg)")
      case None
      with assms Some d have "trace w' = trace w @ []" by (auto simp: create_visit_def)
      then show ?thesis using one_call_Nil by blast
    next
      case o: (Some office)
      let ?rq = "\<lparr>url = base_url e @ ''/visits/'', http_method = ''POST'',
                  req_headers = json_headers tok,
                  payload = JsonBody
                    (JObj [(''patient'', JStr (js_String e pid)),
                           (''doctor'', JStr doctor),
                           (''office'', JStr office),
                           (''date'', JStr (case vd of None \<Rightarrow> take 10 (toISOString e (now w))
                                            | Some d \<Rightarrow> d))])\<rparr>"
      obtain out w1 where f: "do_fetch e ?rq w = (out, w1)"
        by (cases "do_fetch e ?rq w")
      have t: "trace w1 = trace w @ [(?rq, out)]"
        using f by (rule do_fetch_trace)
      have w': "w' = w1"
        using assms Some d o f
        by (auto simp: create_visit_def Let_def split: fetch_outcome.splits if_splits)
      have r: "(case out of
             NetworkError m \<Rightarrow> True
           | Response st tx \<Rightarrow> if ok st then True else resp = visit_rejected e st tx)"
        using assms Some d o f
        by (auto simp: create_visit_def Let_def visit_rejected_def
            split: fetch_outcome.splits if_splits)
      have "one_call (base_url e @ ''/visits/'') (\<lambda>st tx. resp = visit_rejected e st tx)
              [(?rq, out)]"
        using r by (simp add: one_call_single)
      with t w' show ?thesis by auto
    qed
  qed
qed

lemma order_visit_with_token_trace:
  assumes "order_visit_with_token e b u uid nm sn tok w = (resp, w')"
  shows "\<exists>ps vs. trace w' = trace w @ ps @ vs \<and>
           one_call (base_url e @ ''/patients/'') (\<lambda>st tx. resp = patient_rejected e st tx) ps \<and>
           one_call (base_url e @ ''/visits/'') (\<lambda>st tx. resp = visit_rejected e st tx) vs"
proof (cases "json_truthy (externalPatientId u)")
  case True
  with assms have "create_visit e (visitDate b) tok (externalPatientId u) w = (resp, w')"
    by (simp add: order_visit_with_token_def)
  from create_visit_trace [OF this] obtain vs where
    v: "trace w' = trace w @ vs"
    "one_call (base_url e @ ''/visits/'') (\<lambda>st tx. resp = visit_rejected e st tx) vs"
    by auto
  have "trace w' = trace w @ [] @ vs" using v(1) by simp
  with v(2) one_call_Nil show ?thesis by blast
next
  case False
  define rq where "rq = \<lparr>url = base_url e @ ''/patients/'', http_method = ''POST'',
                 req_headers = json_headers tok,
                 payload = JsonBody
                   (buildPatientPayload nm sn (email b) (pesel b)
                      (date_of_birth b) (telephone b))\<rparr>"
  have urq: "url rq = base_url e @ ''/patients/''" by (simp add: rq_def)
  obtain out w1 where f: "do_fetch e rq w = (out, w1)"
    by (cases "do_fetch e rq w")
  have t: "trace w1 = trace w @ [(rq, out)]"
    using f by (rule do_fetch_trace)
  have body: "(resp, w') =
      (case out of
         NetworkError m \<Rightarrow> (server_error m, w1)
       | Response st respText \<Rightarrow>
           if \<not> ok st then (patient_rejected e st respText, w1)
           else
             (case parse_or_raw e respText of
                JNull \<Rightarrow> (server_error ''Cannot read properties of null (reading 'id')'', w1)
              | JObj kvs \<Rightarrow>
                  create_visit e (visitDate b) tok (get_prop ''id'' kvs)
                    (update_user uid (get_prop ''id'' kvs) w1)
              | _ \<Rightarrow>
                  create_visit e (visitDate b) tok JUndefined (update_user uid JUndefined w1)))"
    using assms False f
    unfolding order_visit_with_token_def rq_def [symmetric] patient_rejected_def
    by simp
  have ends: ?thesis
    if "w' = w1" and "case out of NetworkError m \<Rightarrow> True
           | Response st tx \<Rightarrow> if ok st then True else resp = patient_rejected e st tx"
  proof -
    have "one_call (base_url e @ ''/patients/'') (\<lambda>st tx. resp = patient_rejected e st tx) [(rq, out)]"
      using that(2) urq by (simp add: one_call_single)
    moreover have "trace w' = trace w @ [(rq, out)] @ []"
      using that(1) t by simp
    ultimately show ?thesis using one_call_Nil by blast
  qed
  have continues: ?thesis
    if c: "create_visit e (visitDate b) tok pid (update_user uid pid w1) = (resp, w')"
      and okk: "case out of NetworkError m \<Rightarrow> False | Response st tx \<Rightarrow> ok st" for pid
  proof -
    from create_visit_trace [OF c] obtain vs where
      v: "trace w' = trace (update_user uid pid w1) @ vs"
         "one_call (base_url e @ ''/visits/'') (\<lambda>st tx. resp = visit_rejected e st tx) vs"
      by auto
    have "one_call (base_url e @ ''/patients/'') (\<lambda>st tx. resp = patient_rejected e st tx) [(rq, out)]"
      using okk urq by (simp add: one_call_single split: fetch_outcome.splits)
    moreover have "trace w' = trace w @ [(rq, out)] @ vs"
      using v(1) t by simp
    ultimately show ?thesis using v(2) by blast
  qed
  show ?thesis
  proof (cases out)
    case (NetworkError m)
    with body have "w' = w1" by simp
    then show ?thesis using NetworkError by (intro ends) simp_all
  next
    case (Response st tx)
    show ?thesis
    proof (cases "ok st")
      case False
      with body Response have "w' = w1" "resp = patient_rejected e st tx"
        by simp_all
      then show ?thesis using Response False by (intro ends) simp_all
    next
      case True
      show ?thesis
      proof (cases "parse_or_raw e tx")
        case JNull
        with body Response True have "w' = w1" by simp
        then show ?thesis using Response True by (intro ends) simp_all
      next
        case (JObj kvs)
        with body Response True
        have "create_visit e (visitDate b) tok (get_prop ''id'' kvs)
                (update_user uid (get_prop ''id'' kvs) w1) = (resp, w')"
          by simp
        then show ?thesis using Response True by (intro continues) simp_all
      qed (use body Response True in \<open>(intro continues [of JUndefined]; simp)+\<close>)
    qed
  qed
qed

lemma new_calls_append: "trace w' = trace w @ xs \<Longrightarrow> new_calls w w' = xs"
  by (simp add: new_calls_def)

lemma order_visit_POST_trace:
  assumes "order_visit_POST e rq w = (resp, w')"
  shows "\<exists>ts ps vs. trace w' = trace w @ ts @ ps @ vs \<and>
           one_call (base_url e @ ''/o/token/'')
             (\<lambda>st tx. resp = token_failure (Error (''EDM refresh failed: '' @ tx))) ts \<and>
           one_call (base_url e @ ''/patients/'') (\<lambda>st tx. resp = patient_rejected e st tx) ps \<and>
           one_call (base_url e @ ''/visits/'') (\<lambda>st tx. resp = visit_rejected e st tx) vs"
proof -
  have untouched: ?thesis if "w' = w"
  proof -
    from that have "trace w' = trace w @ [] @ [] @ []" by simp
    then show ?thesis using one_call_Nil by blast
  qed
  show ?thesis
  proof (cases rq)
    case (Inl err)
    with assms have "w' = w" by (simp add: order_visit_POST_def)
    then show ?thesis by (rule untouched)
  next
    case (Inr b)
    show ?thesis
    proof (cases "truthy (userId b)")
      case None
      with assms Inr have "w' = w" by (simp add: order_visit_POST_def)
    then show ?thesis by (rule untouched)
    next
      case uid: (Some uid)
      show ?thesis
      proof (cases "truthy (name b)")
        case None
        with assms Inr uid have "w' = w" by (simp add: order_visit_POST_def)
    then show ?thesis by (rule untouched)
      next
        case nm: (Some nm)
        show ?thesis
        proof (cases "truthy (surname b)")
          case None
          with assms Inr uid nm have "w' = w" by (simp add: order_visit_POST_def)
    then show ?thesis by (rule untouched)
        next
          case sn: (Some sn)
          show ?thesis
          proof (cases "findUnique_user uid w")
            case None
            with assms Inr uid nm sn have "w' = w" by (simp add: order_visit_POST_def)
    then show ?thesis by (rule untouched)
          next
            case u: (Some u)
            show ?thesis
            proof (cases "findFirst_edmAuth w")
              case None
              with assms Inr uid nm sn u have "w' = w" by (simp add: order_visit_POST_def)
    then show ?thesis by (rule untouched)
            next
              case r: (Some r)
              obtain res w1 where
                t: "refreshAccessTokenIfNeeded ''EDM refresh failed: '' e r w = (res, w1)"
                by (cases "refreshAccessTokenIfNeeded ''EDM refresh failed: '' e r w")
              from refreshAccessTokenIfNeeded_trace [OF t] obtain ts where
                ts: "trace w1 = trace w @ ts"
                  "one_call (base_url e @ ''/o/token/'')
                     (\<lambda>st tx. res = Inl (Error (''EDM refresh failed: '' @ tx))) ts"
                by auto
              show ?thesis
              proof (cases res)
                case (Inl err)
                with assms Inr uid nm sn u r t have e: "resp = token_failure err" "w' = w1"
                  by (simp_all add: order_visit_POST_def)
                have "one_call (base_url e @ ''/o/token/'')
                        (\<lambda>st tx. resp = token_failure (Error (''EDM refresh failed: '' @ tx))) ts"
                  by (rule one_call_mono [OF ts(2)]) (simp add: Inl e(1))
                moreover have "trace w' = trace w @ ts @ [] @ []"
                  using ts(1) e(2) by simp
                ultimately show ?thesis using one_call_Nil by blast
              next
                case (Inr tok)
                with assms \<open>rq = Inr b\<close> uid nm sn u r t
                have "order_visit_with_token e b u uid nm sn tok w1 = (resp, w')"
                  by (simp add: order_visit_POST_def)
                from order_visit_with_token_trace [OF this] obtain ps vs where
                  pv: "trace w' = trace w1 @ ps @ vs"
                    "one_call (base_url e @ ''/patients/'') (\<lambda>st tx. resp = patient_rejected e st tx) ps"
                    "one_call (base_url e @ ''/visits/'') (\<lambda>st tx. resp = visit_rejected e st tx) vs"
                  by auto
                have "one_call (base_url e @ ''/o/token/'')
                        (\<lambda>st tx. resp = token_failure (Error (''EDM refresh failed: '' @ tx))) ts"
                  by (rule one_call_mono [OF ts(2)]) (simp add: Inr)
                moreover have "trace w' = trace w @ ts @ ps @ vs"
                  using ts(1) pv(1) by simp
                ultimately show ?thesis using pv(2,3) by blast
              qed
            qed
          qed
        qed
      qed
    qed
  qed
qed


subsection \<open>The order-visit route and a rejected patient or visit\<close>

text \<open>
  Claim C10 (upstream rejections are answered with status 200). Take any run of the
  order-visit handler. If one of its network calls went to the patient-creation or the
  visit-creation URL and came back with a non-success status (such a call is made only
  after the access token was obtained), then the handler's answer has HTTP status 200
  and the body \<open>{ ok: false, step, status, body }\<close>, with the step that failed, the
  upstream status, and as \<open>body\<close> what \<open>JSON.parse\<close> reads from the upstream text, or
  \<open>{ raw: text }\<close> when the text is not JSON.
\<close>

theorem order_visit_upstream_rejection:
  assumes "order_visit_POST e rq w = (resp, w')"
    and "(q, Response st tx) \<in> set (new_calls w w')"
    and "\<not> ok st"
    and "url q = base_url e @ ''/patients/'' \<or> url q = base_url e @ ''/visits/''"
  shows "resp =
           \<lparr>status = 200,
            body = JObj [(''ok'', JBool False),
                         (''step'', JStr (if url q = base_url e @ ''/patients/''
                                          then ''create_patient'' else ''create_visit'')),
                         (''status'', JNum (int st)),
                         (''body'', (case JSON_parse e tx of
                                       None \<Rightarrow> JObj [(''raw'', JStr tx)]
                                     | Some j \<Rightarrow> j))]\<rparr>"
proof -
  from order_visit_POST_trace [OF assms(1)] obtain ts ps vs where
    sh: "trace w' = trace w @ ts @ ps @ vs"
      "one_call (base_url e @ ''/o/token/'')
         (\<lambda>st tx. resp = token_failure (Error (''EDM refresh failed: '' @ tx))) ts"
      "one_call (base_url e @ ''/patients/'') (\<lambda>st tx. resp = patient_rejected e st tx) ps"
      "one_call (base_url e @ ''/visits/'') (\<lambda>st tx. resp = visit_rejected e st tx) vs"
    by blast
  from sh(1) have "new_calls w w' = ts @ ps @ vs" by (rule new_calls_append)
  with assms(2) consider
    "(q, Response st tx) \<in> set ts" | "(q, Response st tx) \<in> set ps" | "(q, Response st tx) \<in> set vs"
    by auto
  then show ?thesis
  proof cases
    case 1
    from one_call_member [OF sh(2) 1] assms(4) show ?thesis by simp
  next
    case 2
    from one_call_member [OF sh(3) 2] assms(3) show ?thesis
      by (simp add: patient_rejected_def parse_or_raw_def)
  next
    case 3
    from one_call_member [OF sh(4) 3] assms(3) show ?thesis
      by (simp add: visit_rejected_def parse_or_raw_def)
  qed
qed

text \<open>
  A patient rejected with 422 and a JSON body, which is parsed; a patient rejected with a
  body that is not JSON, which is passed on raw; and a visit rejected for a user who
  already has a patient id. The access token comes from the store.
\<close>

theorem order_visit_upstream_rejection_witness:
  "\<not> ok 422
   \<and> JSON_parse (parsing_env (7, Response 422 pesel_error_text)) pesel_error_text =
       Some (JObj [(''pesel'', JStr ''invalid'')])
   \<and> fst (order_visit_POST (parsing_env (7, Response 422 pesel_error_text))
            (Inr sample_body) (sample_world [fresh_row 1600000])) =
       \<lparr>status = 200,
        body = JObj [(''ok'', JBool False), (''step'', JStr ''create_patient''),
                     (''status'', JNum 422),
                     (''body'', JObj [(''pesel'', JStr ''invalid'')])]\<rparr>
   \<and> fst (order_visit_POST (sample_env None (7, Response 422 ''pesel invalid'') sample_token)
            (Inr sample_body) (sample_world [fresh_row 1600000])) =
       \<lparr>status = 200,
        body = JObj [(''ok'', JBool False), (''step'', JStr ''create_patient''),
                     (''status'', JNum 422),
                     (''body'', JObj [(''raw'', JStr ''pesel invalid'')])]\<rparr>
   \<and> fst (order_visit_POST (sample_env None (7, Response 422 ''no such office'') sample_token)
            (Inr sample_body) (world_with_patient [fresh_row 1600000])) =
       \<lparr>status = 200,
        body = JObj [(''ok'', JBool False), (''step'', JStr ''create_visit''),
                     (''status'', JNum 422),
                     (''body'', JObj [(''raw'', JStr ''no such office'')])]\<rparr>"
proof -
  let ?e0 = "parsing_env (7, Response 422 pesel_error_text)"
  let ?e1 = "sample_env None (7, Response 422 ''pesel invalid'') sample_token"
  let ?w1 = "sample_world [fresh_row 1600000]"
  let ?e2 = "sample_env None (7, Response 422 ''no such office'') sample_token"
  let ?w2 = "world_with_patient [fresh_row 1600000]"
  let ?pq = "\<lambda>e. \<lparr>url = base_url e @ ''/patients/'', http_method = ''POST'',
                  req_headers = json_headers ''A'',
                  payload = JsonBody
                    (buildPatientPayload ''Jan'' ''Kowalski'' None (Some ''44051401359'') None
                       (Some []))\<rparr>"
  have p0: "JSON_parse ?e0 pesel_error_text = Some (JObj [(''pesel'', JStr ''invalid'')])"
    by (simp add: parsing_env_def sample_parse_def)
  have r0: "trace (snd (order_visit_POST ?e0 (Inr sample_body) ?w1)) =
              [(?pq ?e0, Response 422 pesel_error_text)]"
    by (simp add: order_visit_POST_def order_visit_with_token_def sample_body_def
        findUnique_user_def findFirst_edmAuth_def refreshAccessTokenIfNeeded_def
        valid_access_token_def do_fetch_def ok_def fresh_row_def parsing_env_def sample_defs)
  have r1: "trace (snd (order_visit_POST ?e1 (Inr sample_body) ?w1)) =
              [(?pq ?e1, Response 422 ''pesel invalid'')]"
    by (simp add: order_visit_POST_def order_visit_with_token_def sample_body_def
        findUnique_user_def findFirst_edmAuth_def refreshAccessTokenIfNeeded_def
        valid_access_token_def do_fetch_def ok_def fresh_row_def sample_defs)
  have r2: "trace (snd (order_visit_POST ?e2 (Inr sample_body) ?w2)) =
              [(\<lparr>url = base_url ?e2 @ ''/visits/'', http_method = ''POST'',
                 req_headers = json_headers ''A'',
                 payload = JsonBody
                   (JObj [(''patient'', JStr ''p9''), (''doctor'', JStr ''7''),
                          (''office'', JStr ''3''), (''date'', JStr ''2026-01-01'')])\<rparr>,
                Response 422 ''no such office'')]"
    by (simp add: order_visit_POST_def order_visit_with_token_def create_visit_def
        sample_body_def findUnique_user_def findFirst_edmAuth_def findFirst_cfg_def
        refreshAccessTokenIfNeeded_def valid_access_token_def do_fetch_def ok_def
        world_with_patient_def fresh_row_def sample_defs)
  have n1: "new_calls ?w1 w' = trace w'" for w'
    by (simp add: new_calls_def sample_world_def)
  have n2: "new_calls ?w2 w' = trace w'" for w'
    by (simp add: new_calls_def sample_world_def world_with_patient_def)
  have k: "\<not> ok 422" by (simp add: ok_def)
  have z: "fst (order_visit_POST ?e0 (Inr sample_body) ?w1) =
       \<lparr>status = 200,
        body = JObj [(''ok'', JBool False), (''step'', JStr ''create_patient''),
                     (''status'', JNum 422),
                     (''body'', JObj [(''pesel'', JStr ''invalid'')])]\<rparr>"
    using order_visit_upstream_rejection
      [where e = ?e0 and rq = "Inr sample_body" and w = ?w1
         and resp = "fst (order_visit_POST ?e0 (Inr sample_body) ?w1)"
         and w' = "snd (order_visit_POST ?e0 (Inr sample_body) ?w1)"
         and q = "?pq ?e0" and st = 422 and tx = pesel_error_text]
    by (simp add: n1 r0 k p0)
  have a: "fst (order_visit_POST ?e1 (Inr sample_body) ?w1) =
       \<lparr>status = 200,
        body = JObj [(''ok'', JBool False), (''step'', JStr ''create_patient''),
                     (''status'', JNum 422),
                     (''body'', JObj [(''raw'', JStr ''pesel invalid'')])]\<rparr>"
    using order_visit_upstream_rejection
      [where e = ?e1 and rq = "Inr sample_body" and w = ?w1
         and resp = "fst (order_visit_POST ?e1 (Inr sample_body) ?w1)"
         and w' = "snd (order_visit_POST ?e1 (Inr sample_body) ?w1)"
         and q = "?pq ?e1" and st = 422 and tx = "''pesel invalid''"]
    by (simp add: n1 r1 k) (simp add: sample_env_def)
  have b: "fst (order_visit_POST ?e2 (Inr sample_body) ?w2) =
       \<lparr>status = 200,
        body = JObj [(''ok'', JBool False), (''step'', JStr ''create_visit''),
                     (''status'', JNum 422),
                     (''body'', JObj [(''raw'', JStr ''no such office'')])]\<rparr>"
    using order_visit_upstream_rejection
      [where e = ?e2 and rq = "Inr sample_body" and w = ?w2
         and resp = "fst (order_visit_POST ?e2 (Inr sample_body) ?w2)"
         and w' = "snd (order_visit_POST ?e2 (Inr sample_body) ?w2)"
         and q = "\<lparr>url = base_url ?e2 @ ''/visits/'', http_method = ''POST'',
                 req_headers = json_headers ''A'',
                 payload = JsonBody
                   (JObj [(''patient'', JStr ''p9''), (''doctor'', JStr ''7''),
                          (''office'', JStr ''3''), (''date'', JStr ''2026-01-01'')])\<rparr>"
         and st = 422 and tx = "''no such office''"]
    by (simp add: n2 r2 k) (simp add: sample_env_def)
  show ?thesis using k p0 z a b by simp
qed

subsection \<open>What the caller sees when the token refresh is rejected\<close>




section \<open>Properties of the patient payload\<close>

lemma removeEmpty_keeps_kind:
  "is_object v \<Longrightarrow> is_object (removeEmpty v) \<and> \<not> is_empty_val (removeEmpty v)"
  by (cases v) auto

text \<open>
  Whatever value \<open>removeEmpty\<close> is given, what it leaves is pruned: the three statements
  follow the three loops of the function.
\<close>

lemma removeEmpty_pruned:
  "pruned (removeEmpty v)"
  "pruned_members (removeEmpty_members kvs)"
  "pruned_elems (removeEmpty_elems xs)"
proof (induction v and kvs and xs rule: removeEmpty_removeEmpty_members_removeEmpty_elems.induct)
  case (9 k v kvs)
  then show ?case
    using removeEmpty_keeps_kind [of v] by auto
next
  case (11 x xs)
  then show ?case
    using removeEmpty_keeps_kind [of x] by (cases x) auto
qed simp_all

lemma sample_pesel: "parsePesel ''44051401359'' = Some (''1944-05-14'', Mezczyzna)"
  by code_simp

text \<open>
  Claim C9 (only populated fields are serialized). For every input of
  \<open>buildPatientPayload\<close>, the payload it returns has no member, at any depth, bound to the
  empty string, \<open>null\<close> or \<open>undefined\<close>, and no nested object that is empty.
\<close>

theorem patient_payload_pruned:
  "pruned (buildPatientPayload nm sn em ps dob tel)"
  unfolding buildPatientPayload_def Let_def by (rule removeEmpty_pruned(1))

text \<open>
  A patient with a PESEL and an empty telephone: the telephone, the other null fields and
  the empty address lines are gone, each address keeps its country, and the date of birth
  and the sex come from the PESEL.
\<close>

theorem patient_payload_pruned_witness:
  "buildPatientPayload ''Jan'' ''Kowalski'' None (Some ''44051401359'') None (Some []) =
     JObj [(''name'', JStr ''Jan''), (''surname'', JStr ''Kowalski''),
           (''country'', JStr ''PL''),
           (''residence_address'', JObj [(''country'', JStr ''PL'')]),
           (''registration_address'', JObj [(''country'', JStr ''PL'')]),
           (''blood_type'', JStr ''N''), (''active'', JBool True),
           (''pesel'', JStr ''44051401359''),
           (''date_of_birth'', JStr ''1944-05-14''),
           (''sex'', JStr Mezczyzna)]
   \<and> pruned (buildPatientPayload ''Jan'' ''Kowalski'' None (Some ''44051401359'') None (Some []))"
  using patient_payload_pruned [of "''Jan''" "''Kowalski''" None "Some ''44051401359''" None "Some []"]
  by (simp add: buildPatientPayload_def sample_pesel empty_address_def Mezczyzna_def)

section \<open>Further properties of the sweep\<close>

subsection \<open>A store smaller than one page\<close>

lemma outcome_id_refreshRecord: "outcome_id (fst (refreshRecord e r w)) = rec_id r"
  unfolding refreshRecord_def refreshRecord_try_def
  by (auto split: sum.splits prod.splits fetch_outcome.splits if_splits option.splits)

lemma refresh_page_ids:
  "map outcome_id (fst (refresh_page e rs w results)) = map outcome_id results @ map rec_id rs"
proof (induction rs arbitrary: w results)
  case Nil
  then show ?case by simp
next
  case (Cons r rs)
  obtain res w1 where p: "refreshRecord e r w = (res, w1)"
    by (cases "refreshRecord e r w")
  have "outcome_id res = rec_id r"
    using outcome_id_refreshRecord [of e r w] p by simp
  with Cons.IH [of w1 "results @ [res]"] p show ?case by simp
qed

text \<open>
  With fewer than \<open>batchSize\<close> non-revoked rows the sweep does terminate, after a single
  page: it returns one outcome per non-revoked row, in the order of the page, each
  carrying the id of its row.
\<close>

theorem sweep_short_store:
  assumes "length (filter (\<lambda>r. \<not> revoked r) (edmAuth w)) < batchSize"
  shows "sweep e w [] = Some (refresh_page e (filter (\<lambda>r. \<not> revoked r) (edmAuth w)) w [])
       \<and> map outcome_id (fst (refresh_page e (filter (\<lambda>r. \<not> revoked r) (edmAuth w)) w [])) =
           map rec_id (filter (\<lambda>r. \<not> revoked r) (edmAuth w))"
proof -
  let ?rows = "filter (\<lambda>r. \<not> revoked r) (edmAuth w)"
  have page: "findMany batchSize w = ?rows"
    using assms by (simp add: findMany_def)
  have "sweep e w [] = Some (refresh_page e ?rows w [])"
  proof (cases "?rows = []")
    case True
    with page show ?thesis by (subst sweep.simps) simp
  next
    case False
    with page assms show ?thesis
      by (subst sweep.simps) (simp add: Let_def split: prod.splits)
  qed
  then show ?thesis by (simp add: refresh_page_ids)
qed

theorem sweep_short_store_witness:
  "(case sweep (sample_env None (7, Response 400 ''invalid_grant'') sample_token)
           (sample_world (sample_rows 2)) [] of
      None \<Rightarrow> False
    | Some (results, w') \<Rightarrow>
        results = [RefreshFailed ''r'' ''invalid_grant'', RefreshFailed ''rr'' ''invalid_grant'']
        \<and> now w' = 1000014)"
proof -
  let ?e = "sample_env None (7, Response 400 ''invalid_grant'') sample_token"
  have rows: "filter (\<lambda>r. \<not> revoked r) (edmAuth (sample_world (sample_rows 2))) = sample_rows 2"
    by (simp add: sample_world_def sample_rows_def sample_row_def)
  have two: "sample_rows 2 = [sample_row ''r'' ''|old'', sample_row ''rr'' ''|old'']"
    by (simp add: sample_rows_def upt_rec numeral_2_eq_2)
  have small: "length (filter (\<lambda>r. \<not> revoked r) (edmAuth (sample_world (sample_rows 2)))) < batchSize"
    by (simp add: length_active_sample_rows batchSize_def)
  have run: "refresh_page ?e (sample_rows 2) (sample_world (sample_rows 2)) [] =
               ([RefreshFailed ''r'' ''invalid_grant'', RefreshFailed ''rr'' ''invalid_grant''],
                snd (refresh_page ?e (sample_rows 2) (sample_world (sample_rows 2)) []))"
    by (simp add: two refreshRecord_def refreshRecord_try_def do_fetch_def ok_def sample_defs
        split: prod.splits)
  have clock: "now (snd (refresh_page ?e (sample_rows 2) (sample_world (sample_rows 2)) [])) = 1000014"
    by (simp add: two refreshRecord_def refreshRecord_try_def do_fetch_def ok_def sample_defs
        split: prod.splits)
  obtain rs w' where
    rp: "refresh_page ?e (sample_rows 2) (sample_world (sample_rows 2)) [] = (rs, w')"
    by (cases "refresh_page ?e (sample_rows 2) (sample_world (sample_rows 2)) []")
  with run clock have
    out: "rs = [RefreshFailed ''r'' ''invalid_grant'', RefreshFailed ''rr'' ''invalid_grant'']"
      "now w' = 1000014"
    by simp_all
  from sweep_short_store [OF small, of ?e]
  have "sweep ?e (sample_world (sample_rows 2)) [] = Some (rs, w')"
    by (simp add: rows rp)
  then show ?thesis
    using out by simp
qed

subsection \<open>The sweep always reschedules\<close>

lemma now_do_fetch: "do_fetch e rq w = (out, w1) \<Longrightarrow> now w \<le> now w1"
  by (auto simp: do_fetch_def split: prod.splits)

lemma now_encrypt: "encrypt e t w = (out, w1) \<Longrightarrow> now w1 = now w"
  by (auto simp: encrypt_def)

lemma now_rotate: "rotate e r rt w = (out, w1) \<Longrightarrow> now w1 = now w"
  by (auto simp: rotate_def encrypt_def split: option.splits sum.splits prod.splits)

lemma find_row_do_fetch: "do_fetch e rq w = (out, w1) \<Longrightarrow> find_row i w1 = find_row i w"
  by (auto simp: do_fetch_def find_row_def split: prod.splits)

lemma find_row_encrypt: "encrypt e t w = (out, w1) \<Longrightarrow> find_row i w1 = find_row i w"
  by (auto simp: encrypt_def find_row_def)

lemma find_row_rotate: "rotate e r rt w = (out, w1) \<Longrightarrow> find_row i w1 = find_row i w"
  by (auto simp: rotate_def encrypt_def find_row_def split: option.splits sum.splits prod.splits)

lemma rescheduled_applyFailure:
  "find_row i w = Some s \<Longrightarrow> rescheduled i (applyFailure i w)"
  by (simp add: rescheduled_def find_row_applyFailure failure_data_def)

lemma rescheduled_success:
  "find_row i w = Some s \<Longrightarrow> t = now w \<Longrightarrow>
   rescheduled i (update_edmAuth i (success_data a x c h t) w)"
  by (simp add: rescheduled_def find_row_success success_data_def)

lemma refreshRecord_try_reschedules:
  assumes "find_row (rec_id r) w = Some s" and "refreshRecord_try e r w = (out, w1)"
  shows "now w \<le> now w1 \<and>
         (case out of
            Inl err \<Rightarrow> find_row (rec_id r) w1 = Some s
          | Inr res \<Rightarrow> rescheduled (rec_id r) w1)"
proof (cases "decryptToken e (encryptedRefreshToken r)")
  case (Inl err)
  with assms show ?thesis by (auto simp: refreshRecord_try_def)
next
  case (Inr raw)
  obtain reply w0 where f: "do_fetch e (token_request e raw) w = (reply, w0)"
    by (cases "do_fetch e (token_request e raw) w")
  have r0: "find_row (rec_id r) w0 = Some s" and n0: "now w \<le> now w0"
    using find_row_do_fetch [OF f] now_do_fetch [OF f] assms(1) by simp_all
  show ?thesis
  proof (cases reply)
    case (NetworkError m)
    with assms(2) Inr f r0 n0 show ?thesis by (auto simp: refreshRecord_try_def)
  next
    case (Response st tx)
    show ?thesis
    proof (cases "ok st")
      case False
      with assms(2) Inr f Response r0 n0 show ?thesis
        by (auto simp: refreshRecord_try_def rescheduled_applyFailure)
    next
      case True
      show ?thesis
      proof (cases "token_json e tx")
        case (Inl err)
        with assms(2) \<open>decryptToken e (encryptedRefreshToken r) = Inr raw\<close> f Response True r0 n0
        show ?thesis by (auto simp: refreshRecord_try_def)
      next
        case d: (Inr d)
        define enc where "enc =
          (case truthy (access_token d) of
             None \<Rightarrow> (Inr None, w0)
           | Some a \<Rightarrow>
               (case encrypt e a w0 of
                  (Inl err, w2) \<Rightarrow> (Inl err, w2)
                | (Inr c, w2) \<Rightarrow> (Inr (Some c), w2)))"
        obtain ea w2 where e2: "enc = (ea, w2)" by (cases enc)
        have r2: "find_row (rec_id r) w2 = Some s" and n2: "now w2 = now w0"
          using e2 r0 find_row_encrypt now_encrypt
          by (auto simp: enc_def split: option.splits sum.splits prod.splits)
        have step: "(out, w1) =
            (case ea of
               Inl err \<Rightarrow> (Inl err, w2)
             | Inr encAccess \<Rightarrow>
                 (case rotate e r (refresh_token d) w2 of
                    (Inl err, w3) \<Rightarrow> (Inl err, w3)
                  | (Inr (encRefresh, refreshHash), w3) \<Rightarrow>
                      (Inr (RefreshOk (rec_id r) (now w3 + 8 * 60 * 60 * 1000)),
                       update_edmAuth (rec_id r)
                         (success_data encAccess (expiresAt_of (expires_in d) (now w3))
                            encRefresh refreshHash (now w3))
                         w3)))"
          using assms(2) \<open>decryptToken e (encryptedRefreshToken r) = Inr raw\<close> f Response True d
            e2 [unfolded enc_def]
          by (simp add: refreshRecord_try_def)
        show ?thesis
        proof (cases ea)
          case (Inl err)
          with step r2 n2 n0 show ?thesis by auto
        next
          case ea: (Inr encAccess)
          obtain rr w3 where rot: "rotate e r (refresh_token d) w2 = (rr, w3)"
            by (cases "rotate e r (refresh_token d) w2")
          have r3: "find_row (rec_id r) w3 = Some s" and n3: "now w3 = now w2"
            using find_row_rotate [OF rot] now_rotate [OF rot] r2 by simp_all
          show ?thesis
          proof (cases rr)
            case (Inl err)
            with step ea rot r3 n3 n2 n0 show ?thesis by auto
          next
            case (Inr pair)
            with step ea rot r3 n3 n2 n0 show ?thesis
              by (cases pair) (auto simp: rescheduled_success)
          qed
        qed
      qed
    qed
  qed
qed

text \<open>
  Whatever happens to a refresh in the sweep (a ciphertext that does not decrypt, a
  network error, a rejection, a body that is not JSON, a cipher failure, or success),
  \<open>refreshRecord\<close> leaves the row scheduled one hour or eight hours after the clock
  reading, so never in the past; the clock never runs backwards.
\<close>

theorem refreshRecord_always_reschedules:
  assumes "find_row (rec_id r) w = Some s"
  shows "(case refreshRecord e r w of
            (res, w') \<Rightarrow> now w \<le> now w' \<and> rescheduled (rec_id r) w')"
proof -
  obtain out w1 where t: "refreshRecord_try e r w = (out, w1)"
    by (cases "refreshRecord_try e r w")
  from refreshRecord_try_reschedules [OF assms t] show ?thesis
    by (cases out) (auto simp: refreshRecord_def t rescheduled_applyFailure)
qed

theorem refreshRecord_always_reschedules_witness:
  "find_row ''r1'' (sample_world [sample_row ''r1'' ''garbage'']) = Some (sample_row ''r1'' ''garbage'')
   \<and> (case refreshRecord (sample_env None (7, Response 200 []) sample_token)
              (sample_row ''r1'' ''garbage'') (sample_world [sample_row ''r1'' ''garbage'']) of
          (res, w') \<Rightarrow>
            res = RefreshFailed ''r1'' ''Unsupported state or unable to authenticate data''
            \<and> now w' = 1000000
            \<and> map nextRefreshAt (edmAuth w') = [4600000]
            \<and> rescheduled ''r1'' w')"
  using refreshRecord_always_reschedules
    [where r = "sample_row ''r1'' ''garbage''" and w = "sample_world [sample_row ''r1'' ''garbage'']"
       and s = "sample_row ''r1'' ''garbage''"
       and e = "sample_env None (7, Response 200 []) sample_token"]
  by (simp add: sample_defs find_row_def refreshRecord_def refreshRecord_try_def applyFailure_def
      update_edmAuth_def failure_data_def split: prod.splits)

end
